theory Spec2Isabelle
  imports Complex_Main "HOL-Library.Sublist" "HOL-Library.Char_ord" "HOL-Library.List_Lexorder"
begin

section \<open>JavaScript values\<close>

text \<open>
  The values that flow through the settings groups.  Numbers are the integers the data
  model uses (string numbers, fret numbers, finger numbers); an object is the list of its
  own properties in \<open>Object.keys\<close> order.
\<close>

datatype jsval =
    JUndefined
  | JNull
  | JBool bool
  | JNum int
  | JStr string
  | JArr "jsval list"
  | JObj "(string \<times> jsval) list"

text \<open>JavaScript truthiness, as used by \<open>if (!settings)\<close> and by \<open>a || b\<close>.\<close>

fun truthy :: "jsval \<Rightarrow> bool" where
  "truthy JUndefined = False"
| "truthy JNull = False"
| "truthy (JBool b) = b"
| "truthy (JNum n) = (n \<noteq> 0)"
| "truthy (JStr s) = (s \<noteq> [])"
| "truthy (JArr _) = True"
| "truthy (JObj _) = True"

subsection \<open>Decimal rendering of integers\<close>

text \<open>\<open>String(n)\<close> and template interpolation \<open>${n}\<close> of an integer.\<close>

definition digit_char :: "nat \<Rightarrow> char" where
  "digit_char d = char_of (48 + d)"

fun digits_of :: "nat \<Rightarrow> string" where
  "digits_of n = (if n < 10 then [digit_char n] else digits_of (n div 10) @ [digit_char (n mod 10)])"

declare digits_of.simps [simp del]

definition show_int :: "int \<Rightarrow> string" where
  "show_int i = (if i < 0 then CHR ''-'' # digits_of (nat (- i)) else digits_of (nat i))"

subsection \<open>Property access on objects\<close>

text \<open>
  \<open>obj[key]\<close>: the value of an own property, \<open>undefined\<close> when there is none.
  \<open>obj[key] = v\<close>: overwrite in place when the key exists, append otherwise.
\<close>

fun js_get :: "(string \<times> jsval) list \<Rightarrow> string \<Rightarrow> jsval" where
  "js_get [] k = JUndefined"
| "js_get ((k', v) # ps) k = (if k' = k then v else js_get ps k)"

fun js_set :: "(string \<times> jsval) list \<Rightarrow> string \<Rightarrow> jsval \<Rightarrow> (string \<times> jsval) list" where
  "js_set [] k v = [(k, v)]"
| "js_set ((k', v') # ps) k v = (if k' = k then (k, v) # ps else (k', v') # js_set ps k v)"

definition js_has :: "(string \<times> jsval) list \<Rightarrow> string \<Rightarrow> bool" where
  "js_has ps k = (k \<in> set (map fst ps))"

text \<open>
  \<open>Object.keys(x)\<close> paired with \<open>x[key]\<close>: the own enumerable properties of an object,
  the indices of an array or of a string, nothing for the other primitives.
\<close>

fun index_entries :: "nat \<Rightarrow> jsval list \<Rightarrow> (string \<times> jsval) list" where
  "index_entries i [] = []"
| "index_entries i (v # vs) = (digits_of i, v) # index_entries (Suc i) vs"

fun object_entries :: "jsval \<Rightarrow> (string \<times> jsval) list" where
  "object_entries (JObj ps) = ps"
| "object_entries (JArr vs) = index_entries 0 vs"
| "object_entries (JStr s) = index_entries 0 (map (\<lambda>c. JStr [c]) s)"
| "object_entries _ = []"

section \<open>Settings Group C: the stored chord settings\<close>

text \<open>\<open>defaultSettingsGroupC\<close> (fretboard.js, lines 83--89).\<close>

definition defaultSettingsGroupC :: "(string \<times> jsval) list" where
  "defaultSettingsGroupC =
     [(''name'', JNull), (''root'', JNull), (''startFret'', JNum 1), (''numFrets'', JNum 4),
      (''fingering'', JArr [])]"

text \<open>
  The merge loop of \<open>updateSettingsGroupC\<close> (lines 2474--2478): every key of the argument
  other than \<open>tuning\<close>, \<open>numStrings\<close> and \<open>stringType\<close> is assigned into the stored group.
\<close>

fun mergeGroupC :: "(string \<times> jsval) list \<Rightarrow> (string \<times> jsval) list \<Rightarrow> (string \<times> jsval) list" where
  "mergeGroupC g [] = g"
| "mergeGroupC g ((key, v) # rest) =
     (if key \<noteq> ''tuning'' \<and> key \<noteq> ''numStrings'' \<and> key \<noteq> ''stringType''
      then mergeGroupC (js_set g key v) rest
      else mergeGroupC g rest)"

text \<open>
  \<open>updateSettingsGroupC(settings, ...)\<close> as a function of the stored group: a falsy
  argument returns at once (line 2467); otherwise the merge loop runs.  The rest of the
  function (chord root, fret window, chord display) reads the stored group and never
  assigns to it.
\<close>

definition updateSettingsGroupC :: "(string \<times> jsval) list \<Rightarrow> jsval \<Rightarrow> (string \<times> jsval) list" where
  "updateSettingsGroupC g settings =
     (if \<not> truthy settings then g else mergeGroupC g (object_entries settings))"

definition groupA_only_keys :: "string set" where
  "groupA_only_keys = {''tuning'', ''numStrings'', ''stringType''}"


section \<open>Fret-row geometry: \<open>applyFretHeights\<close>\<close>

text \<open>
  \<open>applyFretHeights\<close> (fretboard.js, lines 1035--1149), for a target whose wrapper element
  exists.  A JavaScript number is a real or \<open>NaN\<close> (\<open>None\<close>); rounding of doubles is not
  modelled.  What the function reads from the page is its environment:
  \<^item> \<open>totalHeight\<close>: \<open>getBoundingClientRect().height\<close> of the wrapper;
  \<^item> \<open>computedHeight\<close>: \<open>parseFloat\<close> of the computed style height;
  \<^item> \<open>vhHeight\<close>: present when \<open>--fretboard-height\<close> is given in \<open>vh\<close>, then
    \<open>innerHeight * vhValue / 100\<close>;
  \<^item> \<open>headerHeightParsed\<close>, \<open>fret0HeightParsed\<close>: \<open>parseFloat\<close> of \<open>--header-height\<close> and
    \<open>--fret-0-height\<close>;
  \<^item> \<open>shown i\<close>: row \<open>i\<close> exists, is not inside a non-interactive row and is not hidden.
\<close>

type_synonym jsnum = "real option"

definition fretRatio :: real where
  "fretRatio = 2 powr (- 1 / 12)"

record layout_env =
  totalHeight :: jsnum
  computedHeight :: jsnum
  vhHeight :: "jsnum option"
  headerHeightParsed :: jsnum
  fret0HeightParsed :: jsnum

text \<open>
  The outcome: \<open>Deferred\<close> is the retry on the next animation frame, \<open>Aborted\<close> the warning
  and return, \<open>Applied ws\<close> the list of \<open>--fret-row-height\<close> writes (fret number, pixels).
\<close>

datatype heights_result = Deferred | Aborted | Applied "(nat \<times> real) list"

text \<open>\<open>parseFloat(s) || 0\<close>: \<open>NaN\<close> and \<open>0\<close> both give \<open>0\<close>.\<close>

definition or_zero :: "jsnum \<Rightarrow> real" where
  "or_zero x = (case x of None \<Rightarrow> 0 | Some v \<Rightarrow> v)"

text \<open>The fallback chain for the wrapper height (lines 1055--1072).\<close>

definition actualHeight :: "layout_env \<Rightarrow> jsnum" where
  "actualHeight env =
     (if totalHeight env = Some 0 \<or> totalHeight env = None then
        (case computedHeight env of
           Some c \<Rightarrow> if c > 0 then Some c
                     else (case vhHeight env of Some v \<Rightarrow> v | None \<Rightarrow> totalHeight env)
         | None \<Rightarrow> (case vhHeight env of Some v \<Rightarrow> v | None \<Rightarrow> totalHeight env))
      else totalHeight env)"

text \<open>The rows collected by the loop over \<open>i = 0 .. 24\<close> (lines 1101--1107).\<close>

definition allFretRows :: "(nat \<Rightarrow> bool) \<Rightarrow> nat list" where
  "allFretRows shown = filter shown [0..<25]"

text \<open>Both loops over the rows start at index 1 of \<open>allFretRows\<close> (lines 1122, 1135).\<close>

definition ratioSum :: "nat list \<Rightarrow> real" where
  "ratioSum rows = sum_list (map (\<lambda>f. fretRatio ^ f) (tl rows))"

definition row_writes :: "real \<Rightarrow> nat list \<Rightarrow> (nat \<times> real) list" where
  "row_writes baseHeight rows =
     filter (\<lambda>(f, h). h > 0) (map (\<lambda>f. (f, baseHeight * fretRatio ^ f)) (tl rows))"

definition applyFretHeights :: "layout_env \<Rightarrow> (nat \<Rightarrow> bool) \<Rightarrow> heights_result" where
  "applyFretHeights env shown =
     (case actualHeight env of
        None \<Rightarrow> Deferred
      | Some actual \<Rightarrow>
          if actual \<le> 0 then Deferred
          else
            let headerHeight = or_zero (headerHeightParsed env);
                fret0Height = or_zero (fret0HeightParsed env)
            in if fret0Height \<le> 0 then Deferred
               else
                 let rows = allFretRows shown;
                     availableHeight = actual - headerHeight - fret0Height
                 in if availableHeight \<le> 0 then Aborted
                    else if ratioSum rows = 0 then Aborted
                    else Applied (row_writes (availableHeight / ratioSum rows) rows))"

text \<open>Names for stating the property: the available height, the guards that defer, and the
  visible frets above fret 0.\<close>

definition availableHeight :: "layout_env \<Rightarrow> real" where
  "availableHeight env =
     or_zero (actualHeight env) - or_zero (headerHeightParsed env) - or_zero (fret0HeightParsed env)"

definition layout_ready :: "layout_env \<Rightarrow> bool" where
  "layout_ready env = (or_zero (actualHeight env) > 0 \<and> or_zero (fret0HeightParsed env) > 0)"

definition visible_frets :: "(nat \<Rightarrow> bool) \<Rightarrow> nat list" where
  "visible_frets shown = filter (\<lambda>f. 0 < f \<and> shown f) [0..<25]"

text \<open>A concrete layout: a 600px wrapper, 40px header, 30px fret-0 row.\<close>

definition example_env :: layout_env where
  "example_env = \<lparr>totalHeight = Some 600, computedHeight = None, vhHeight = None,
                   headerHeightParsed = Some 40, fret0HeightParsed = Some 30\<rparr>"

text \<open>The same layout when \<open>--fret-0-height\<close> reads as \<open>0\<close>.\<close>

definition zero_fret0_env :: layout_env where
  "zero_fret0_env = \<lparr>totalHeight = Some 600, computedHeight = None, vhHeight = None,
                      headerHeightParsed = Some 40, fret0HeightParsed = Some 0\<rparr>"

text \<open>
  A wrapper that has no height yet, with \<open>--header-height\<close> read as \<open>-100\<close> and a 30px fret-0
  row.
\<close>

definition no_height_env :: layout_env where
  "no_height_env = \<lparr>totalHeight = Some 0, computedHeight = None, vhHeight = None,
                     headerHeightParsed = Some (- 100), fret0HeightParsed = Some 30\<rparr>"

section \<open>The full-config encoder: \<open>generateExportCode\<close>\<close>

subsection \<open>Fingering entries\<close>

text \<open>
  The values a fret or finger field takes: an integer, \<open>NaN\<close> (what \<open>parseInt\<close> gives on a
  non-numeric label), the string \<open>'none'\<close>, \<open>null\<close>, or \<open>undefined\<close> (field absent).
\<close>

datatype jv = VNum int | VNaN | VNone | VNull | VUndefined

record fingering_entry =
  string :: int
  fret :: jv
  finger :: jv

text \<open>Template interpolation \<open>${v}\<close> of such a value.\<close>

fun jv_to_string :: "jv \<Rightarrow> string" where
  "jv_to_string (VNum n) = show_int n"
| "jv_to_string VNaN = ''NaN''"
| "jv_to_string VNone = ''none''"
| "jv_to_string VNull = ''null''"
| "jv_to_string VUndefined = ''undefined''"

text \<open>\<open>typeof v === 'number'\<close> and \<open>v >= 0\<close>.\<close>

fun is_number :: "jv \<Rightarrow> bool" where
  "is_number (VNum _) = True"
| "is_number VNaN = True"
| "is_number _ = False"

fun ge_zero :: "jv \<Rightarrow> bool" where
  "ge_zero (VNum n) = (0 \<le> n)"
| "ge_zero VNull = True"
| "ge_zero _ = False"

text \<open>\<open>v || d\<close>: the value itself when it is truthy.\<close>

fun jv_truthy :: "jv \<Rightarrow> bool" where
  "jv_truthy (VNum n) = (n \<noteq> 0)"
| "jv_truthy VNone = True"
| "jv_truthy _ = False"

definition jv_or :: "jv \<Rightarrow> jv \<Rightarrow> jv" where
  "jv_or v d = (if jv_truthy v then v else d)"

subsection \<open>Settings snapshot\<close>

text \<open>
  The snapshot handed to the encoder.  \<open>None\<close> is an absent (or \<open>null\<close>) field.  The maps
  \<open>tuning\<close> and \<open>fretMarkers\<close> are keyed by string and fret numbers; \<open>cssVariables\<close> by
  variable name.  All three are property lists in \<open>Object.keys\<close> order.
\<close>

record settingsGroupA_t =
  dotTextMode :: "string option"
  showFretIndicators :: "string option"
  tuning :: "(nat \<times> string) list option"
  numStrings :: "int option"
  stringType :: "string option"
  cssVariablesA :: "(string \<times> string) list option"

record settingsGroupB_t =
  fretMarkers :: "(nat \<times> string) list option"
  fretboardBindingDisplay :: "bool option"
  cssVariablesB :: "(string \<times> string) list option"
  customCSS :: "string option"

record settingsGroupC_t =
  name :: "string option"
  root :: "string option"
  startFret :: "int option"
  numFrets :: "int option"
  fingering :: "fingering_entry list option"

record export_state =
  settingsGroupA :: "settingsGroupA_t option"
  settingsGroupB :: "settingsGroupB_t option"
  settingsGroupC :: "settingsGroupC_t option"

subsection \<open>Library functions of the language\<close>

definition nl :: string where
  "nl = [CHR 0x0A]"

text \<open>\<open>xs.join(sep)\<close>.\<close>

fun join :: "string \<Rightarrow> string list \<Rightarrow> string" where
  "join sep [] = []"
| "join sep [x] = x"
| "join sep (x # y # ys) = x @ sep @ join sep (y # ys)"

text \<open>
  \<open>xs.sort(cmp)\<close>: the sort is stable, and for a comparator that is a consistent ordering
  its result is that of insertion sort, an element going before the first later element
  it does not exceed.
\<close>

fun js_insert :: "('a \<Rightarrow> 'a \<Rightarrow> int) \<Rightarrow> 'a \<Rightarrow> 'a list \<Rightarrow> 'a list" where
  "js_insert cmp x [] = [x]"
| "js_insert cmp x (y # ys) = (if cmp x y \<le> 0 then x # y # ys else y # js_insert cmp x ys)"

definition js_sort :: "('a \<Rightarrow> 'a \<Rightarrow> int) \<Rightarrow> 'a list \<Rightarrow> 'a list" where
  "js_sort cmp xs = foldr (js_insert cmp) xs []"

text \<open>\<open>{ ...obj }\<close> and \<open>obj[k] = v\<close> on a property list: a key keeps its first position and
  its last value.\<close>

fun upsert :: "('k \<times> 'v) list \<Rightarrow> 'k \<Rightarrow> 'v \<Rightarrow> ('k \<times> 'v) list" where
  "upsert [] k v = [(k, v)]"
| "upsert ((k', v') # ps) k v = (if k' = k then (k, v) # ps else (k', v') # upsert ps k v)"

definition spread :: "('k \<times> 'v) list \<Rightarrow> ('k \<times> 'v) list \<Rightarrow> ('k \<times> 'v) list" where
  "spread base obj = foldl (\<lambda>acc (k, v). upsert acc k v) base obj"

text \<open>\<open>s.replace(/c/g, r)\<close> for a single character \<open>c\<close>.\<close>

definition replace_char :: "char \<Rightarrow> string \<Rightarrow> string \<Rightarrow> string" where
  "replace_char c r s = concat (map (\<lambda>x. if x = c then r else [x]) s)"

text \<open>
  \<open>s.trim()\<close>, \<open>s.trimEnd()\<close>: white space and line terminators.  A string is a list of
  code units below 256; among those the white space characters are the five controls,
  the space and the no-break space \<open>U+00A0\<close>.
\<close>

definition is_js_space :: "char \<Rightarrow> bool" where
  "is_js_space c = (c \<in> set [CHR 0x09, CHR 0x0A, CHR 0x0B, CHR 0x0C, CHR 0x0D, CHR '' '', CHR 0xA0])"

definition trimStart :: "string \<Rightarrow> string" where
  "trimStart s = dropWhile is_js_space s"

definition trimEnd :: "string \<Rightarrow> string" where
  "trimEnd s = rev (dropWhile is_js_space (rev s))"

definition trim :: "string \<Rightarrow> string" where
  "trim s = trimEnd (trimStart s)"

subsection \<open>Defaults and the style-variable catalogue\<close>

definition defaultFretMarkers :: "(nat \<times> string) list" where
  "defaultFretMarkers =
     [(3, ''single''), (5, ''single''), (7, ''single''), (9, ''single''), (12, ''double''),
      (15, ''single''), (17, ''single''), (19, ''single''), (21, ''single''), (24, ''double'')]"

definition groupAVars :: "string list" where
  "groupAVars =
     [''--fretboard-width'', ''--fretboard-height'', ''--header-height'',
      ''--fret-0-height'', ''--string-thickest-width'',
      ''--string-thinnest-width'', ''--dot-size'', ''--interval-indicator-width'',
      ''--dot-text-font-size'', ''--interval-label-font-size'',
      ''--tuning-label-font-size'', ''--fret-indicator-font-size'',
      ''--fret-divider-height'', ''--fret-divider-width'', ''--nut-divider-height'',
      ''--string-1-default-color'', ''--string-2-default-color'',
      ''--string-3-default-color'', ''--string-4-default-color'',
      ''--string-5-default-color'', ''--string-6-default-color'',
      ''--string-7-color'', ''--string-8-color'', ''--string-9-color'']"

definition groupBVars :: "string list" where
  "groupBVars =
     [''--tuning-label-color'', ''--fret-indicator-color'',
      ''--fret-indicator-secondary'', ''--fret-indicator-tertiary'',
      ''--fingerboard-row-0-color'', ''--fingerboard-row-0-image'',
      ''--main-fret-area-bg-color'', ''--main-fret-area-bg-image'',
      ''--fret-divider-color'', ''--fret-divider-image'',
      ''--nut-divider-color'', ''--nut-divider-image'',
      ''--fretbinding-width'', ''--fretbinding-background'',
      ''--fretbinding-background-image'', ''--marker-dot-size'',
      ''--marker-dot-color'', ''--marker-dot-background-image'',
      ''--marker-dot-background'', ''--dot-outer-circle-color'',
      ''--dot-inner-circle-color'', ''--dot-text-color'',
      ''--hover-dot-outer-color'', ''--hover-dot-outer-border-color'',
      ''--hover-dot-inner-color'', ''--hover-dot-text-color'',
      ''--hover-interval-indicator-text-color'',
      ''--hover-interval-indicator-border-color'', ''--interval-root-color'',
      ''--interval-minor-2nd-color'', ''--interval-major-2nd-color'',
      ''--interval-minor-3rd-color'', ''--interval-major-3rd-color'',
      ''--interval-perfect-4th-color'', ''--interval-tritone-color'',
      ''--interval-perfect-5th-color'', ''--interval-minor-6th-color'',
      ''--interval-major-6th-color'', ''--interval-minor-7th-color'',
      ''--interval-major-7th-color'', ''--interval-octave-color'',
      ''--interval-minor-9th-color'', ''--interval-major-9th-color'',
      ''--interval-aug-9th-color'', ''--interval-perfect-11th-color'',
      ''--interval-aug-11th-color'']"

text \<open>
  \<open>getAllDefaultCSSVariables\<close> reads the trimmed computed value of every catalogued
  variable from the page; \<open>computed\<close> is that reading.  A variable with an empty value has
  no entry in \<open>allValues\<close>.  The loops at lines 2705--2715 and 2767--2777 add a catalogued
  variable that the group does not already hold and whose default is non-empty.
\<close>

fun addDefaultVars :: "(string \<Rightarrow> string) \<Rightarrow> string list \<Rightarrow> (string \<times> string) list \<Rightarrow> (string \<times> string) list" where
  "addDefaultVars computed [] vars = vars"
| "addDefaultVars computed (varName # rest) vars =
     addDefaultVars computed rest
       (if varName \<notin> set (map fst vars) \<and> computed varName \<noteq> []
        then upsert vars varName (computed varName) else vars)"

subsection \<open>The three sections\<close>

text \<open>The \<open>cssVariables\<close> block (lines 2718--2731 and 2780--2793), absent when empty.\<close>

definition cssVarLine :: "(string \<times> string) list \<Rightarrow> string \<Rightarrow> string" where
  "cssVarLine vars key =
     ''            '' @ [CHR 0x27] @ key @ [CHR 0x27] @ '': '' @ [CHR 0x27] @
     replace_char (CHR 0x27) [CHR 0x5C, CHR 0x27] (the (map_of vars key)) @ [CHR 0x27]"

definition blockLines :: "string list \<Rightarrow> string" where
  "blockLines ls = concat (map (\<lambda>l. l @ nl) (map (\<lambda>l. l @ '','') (butlast ls) @ (if ls = [] then [] else [last ls])))"

definition cssVarsCode :: "(string \<times> string) list \<Rightarrow> string list" where
  "cssVarsCode vars =
     (if vars = [] then []
      else [''        cssVariables: {'' @ nl @
            blockLines (map (cssVarLine vars) (sort (map fst vars))) @
            ''        }''])"

definition cssVarsToInclude :: "bool \<Rightarrow> (string \<Rightarrow> string) \<Rightarrow> string list \<Rightarrow> (string \<times> string) list option \<Rightarrow> (string \<times> string) list" where
  "cssVarsToInclude includeAllVariables computed catalogue vars =
     (let own = spread [] (case vars of None \<Rightarrow> [] | Some vs \<Rightarrow> vs)
      in if includeAllVariables then addDefaultVars computed catalogue own else own)"

text \<open>A numeric-keyed map printed as \<open>key: 'value'\<close> lines, the keys sorted by \<open>parseInt\<close>.\<close>

definition numKeyLine :: "(nat \<times> string) list \<Rightarrow> nat \<Rightarrow> string" where
  "numKeyLine m k =
     ''            '' @ digits_of k @ '': '' @ [CHR 0x27] @ the (map_of m k) @ [CHR 0x27]"

definition numKeyBlock :: "(nat \<times> string) list \<Rightarrow> string" where
  "numKeyBlock m =
     (let own = spread [] m
      in blockLines (map (numKeyLine own) (js_sort (\<lambda>a b. int a - int b) (map fst own))))"

definition or_default :: "string option \<Rightarrow> string \<Rightarrow> string" where
  "or_default v d = (case v of None \<Rightarrow> d | Some s \<Rightarrow> if s = [] then d else s)"

definition groupASection :: "bool \<Rightarrow> (string \<Rightarrow> string) \<Rightarrow> settingsGroupA_t option \<Rightarrow> string" where
  "groupASection includeAllVariables computed groupA =
     nl @ ''    // Settings Group A - Fretboard Variables'' @ nl @
     ''    settingsGroupA: {'' @ nl @
     join ('','' @ nl)
       ([''        dotTextMode: '' @ [CHR 0x27] @ or_default (Option.bind groupA dotTextMode) ''note'' @ [CHR 0x27],
         ''        showFretIndicators: '' @ [CHR 0x27] @ or_default (Option.bind groupA showFretIndicators) ''first-fret-cond'' @ [CHR 0x27],
         ''        numStrings: '' @ show_int (case Option.bind groupA numStrings of None \<Rightarrow> 6 | Some n \<Rightarrow> n),
         ''        stringType: '' @ [CHR 0x27] @ or_default (Option.bind groupA stringType) ''1'' @ [CHR 0x27],
         (case Option.bind groupA tuning of
            None \<Rightarrow> ''        tuning: null''
          | Some ts \<Rightarrow> if ts = [] then ''        tuning: null''
                       else ''        tuning: {'' @ nl @ numKeyBlock ts @ ''        }'')]
        @ cssVarsCode (cssVarsToInclude includeAllVariables computed groupAVars (Option.bind groupA cssVariablesA)))
     @ nl @ ''    },'' @ nl"

text \<open>
  \<open>customCSS\<close> is escaped by four replacements in turn: backslash, backtick, line feed
  (to backslash-n), single quote.
\<close>

definition escapeCustomCSS :: "string \<Rightarrow> string" where
  "escapeCustomCSS s =
     replace_char (CHR 0x27) [CHR 0x5C, CHR 0x27]
       (replace_char (CHR 0x0A) [CHR 0x5C, CHR ''n'']
         (replace_char (CHR 0x60) [CHR 0x5C, CHR 0x60]
           (replace_char (CHR 0x5C) [CHR 0x5C, CHR 0x5C] s)))"

definition groupBSection :: "bool \<Rightarrow> (string \<Rightarrow> string) \<Rightarrow> settingsGroupB_t option \<Rightarrow> string" where
  "groupBSection includeAllVariables computed groupB =
     nl @ ''    // Settings Group B - Fretboard Skin'' @ nl @
     ''    settingsGroupB: {'' @ nl @
     join ('','' @ nl)
       ([''        fretMarkers: {'' @ nl @
           numKeyBlock (case Option.bind groupB fretMarkers of None \<Rightarrow> defaultFretMarkers | Some m \<Rightarrow> m) @
           ''        }'',
         ''        fretboardBindingDisplay: '' @
           (case Option.bind groupB fretboardBindingDisplay of
              None \<Rightarrow> ''true'' | Some b \<Rightarrow> if b then ''true'' else ''false'')]
        @ cssVarsCode (cssVarsToInclude includeAllVariables computed groupBVars (Option.bind groupB cssVariablesB))
        @ (case Option.bind groupB customCSS of
             None \<Rightarrow> []
           | Some css \<Rightarrow> if css \<noteq> [] \<and> trim css \<noteq> []
                         then [''        customCSS: '' @ [CHR 0x27] @ escapeCustomCSS css @ [CHR 0x27]]
                         else []))
     @ nl @ ''    },'' @ nl"

text \<open>
  The exporter's test for an entry worth emitting (lines 2816--2820 and 2849--2852): the
  fret is a number, at least 0, and none of \<open>undefined\<close>, \<open>null\<close>, \<open>'none'\<close>, \<open>-1\<close>.
\<close>

definition exportable_entry :: "fingering_entry \<Rightarrow> bool" where
  "exportable_entry f =
     (fret f \<noteq> VUndefined \<and> fret f \<noteq> VNull \<and> fret f \<noteq> VNone \<and> fret f \<noteq> VNum (- 1) \<and>
      is_number (fret f) \<and> ge_zero (fret f))"

text \<open>The sort comparator (lines 2838--2846): by string number, then by fret.\<close>

definition fretSortKey :: "jv \<Rightarrow> int" where
  "fretSortKey v =
     (if v = VNone \<or> v = VNull \<or> v = VUndefined then - 999
      else (case jv_or v (VNum 0) of VNum n \<Rightarrow> n | _ \<Rightarrow> 0))"

definition compareFingering :: "fingering_entry \<Rightarrow> fingering_entry \<Rightarrow> int" where
  "compareFingering a b =
     (let stringDiff = string a - string b
      in if stringDiff \<noteq> 0 then stringDiff else fretSortKey (fret a) - fretSortKey (fret b))"

definition validFingering :: "fingering_entry list \<Rightarrow> fingering_entry list" where
  "validFingering fs = filter exportable_entry (js_sort compareFingering fs)"

definition fingeringLine :: "fingering_entry \<Rightarrow> string" where
  "fingeringLine f =
     (let fretValue = jv_or (fret f) (VNum 0);
          fingerValue = (if finger f \<noteq> VUndefined \<and> finger f \<noteq> VNull then finger f else VNum 0);
          stringValue = (if string f = 0 then 1 else string f)
      in ''            { string: '' @ show_int stringValue @ '', fret: '' @ jv_to_string fretValue @
         '', finger: '' @ jv_to_string fingerValue @ '' }'')"

definition quotedOrNull :: "string option \<Rightarrow> string" where
  "quotedOrNull v = (case v of None \<Rightarrow> ''null'' | Some s \<Rightarrow> [CHR 0x22] @ s @ [CHR 0x22])"

text \<open>The text of the section (lines 2824--2869), given the entries that passed the filter.\<close>

definition groupCText :: "string option \<Rightarrow> string option \<Rightarrow> int option \<Rightarrow> int option \<Rightarrow> fingering_entry list \<Rightarrow> string" where
  "groupCText nameC rootC startFretC numFretsC valid =
     nl @ ''    // Settings Group C - Chord Variables'' @ nl @
     ''    settingsGroupC: {'' @ nl @
     join ('','' @ nl)
       [''        name: '' @ quotedOrNull nameC,
        ''        root: '' @ quotedOrNull rootC,
        ''        startFret: '' @ show_int (case startFretC of None \<Rightarrow> 1 | Some n \<Rightarrow> n),
        ''        numFrets: '' @ show_int (case numFretsC of None \<Rightarrow> 4 | Some n \<Rightarrow> n),
        ''        fingering: ['' @ nl @ blockLines (map fingeringLine valid) @ ''        ]'']
     @ nl @ ''    }'' @ nl"

definition groupCSection :: "settingsGroupC_t option \<Rightarrow> string" where
  "groupCSection groupC =
     (let fingeringList = (case Option.bind groupC fingering of None \<Rightarrow> [] | Some fs \<Rightarrow> fs);
          hasValidFingering = (length fingeringList > 0 \<and> list_ex exportable_entry fingeringList)
      in if hasValidFingering then
           groupCText (Option.bind groupC name) (Option.bind groupC root)
             (Option.bind groupC startFret) (Option.bind groupC numFrets) (validFingering fingeringList)
         else [])"

text \<open>
  The rule for a valid entry in the words of the specification: the fret is a number, at
  least \<open>-1\<close>, and none of \<open>'none'\<close>, \<open>null\<close>, \<open>undefined\<close>.
\<close>

fun ge_minus_one :: "jv \<Rightarrow> bool" where
  "ge_minus_one (VNum n) = (- 1 \<le> n)"
| "ge_minus_one VNull = True"
| "ge_minus_one _ = False"

definition spec_valid_entry :: "fingering_entry \<Rightarrow> bool" where
  "spec_valid_entry f =
     (is_number (fret f) \<and> ge_minus_one (fret f) \<and>
      fret f \<noteq> VNone \<and> fret f \<noteq> VNull \<and> fret f \<noteq> VUndefined)"

text \<open>
  \<open>generateExportCode(state, targetId, includeGroupA, includeGroupB, includeGroupC,
  includeAllVariables)\<close>; \<open>containerId\<close> is the id of the target element, or
  \<open>'my-fretboard'\<close> when there is none.
\<close>

definition generateExportCode ::
  "(string \<Rightarrow> string) \<Rightarrow> string \<Rightarrow> export_state \<Rightarrow> string \<Rightarrow> bool \<Rightarrow> bool \<Rightarrow> bool \<Rightarrow> bool \<Rightarrow> string" where
  "generateExportCode computed containerId state targetId includeGroupA includeGroupB includeGroupC includeAllVariables =
     ''Fretboard.init({'' @ nl @
     ''    containerId: '' @ [CHR 0x27] @ containerId @ [CHR 0x27] @ '','' @ nl @
     ''    fretboardId: '' @ [CHR 0x27] @ targetId @ [CHR 0x27] @ '','' @ nl @
     ''    cssPath: '' @ [CHR 0x27] @ ''fretboard.css'' @ [CHR 0x27] @ '','' @ nl @
     (if includeGroupA then groupASection includeAllVariables computed (settingsGroupA state) else []) @
     (if includeGroupB then groupBSection includeAllVariables computed (settingsGroupB state) else []) @
     (if includeGroupC then groupCSection (settingsGroupC state) else []) @
     ''});''"



definition state_fingering :: "export_state \<Rightarrow> fingering_entry list" where
  "state_fingering state =
     (case Option.bind (settingsGroupC state) fingering of None \<Rightarrow> [] | Some fs \<Rightarrow> fs)"


section \<open>The decoder: \<open>parseExportCode\<close>\<close>

subsection \<open>String functions of the language\<close>

text \<open>\<open>s.indexOf(p)\<close>: the first position at which \<open>p\<close> occurs, \<open>None\<close> for \<open>-1\<close>.\<close>

fun indexOf :: "string \<Rightarrow> string \<Rightarrow> nat option" where
  "indexOf p [] = (if p = [] then Some 0 else None)"
| "indexOf p (c # cs) = (if prefix p (c # cs) then Some 0 else map_option Suc (indexOf p cs))"

text \<open>\<open>s.indexOf(p, from)\<close>.\<close>

definition indexOfFrom :: "string \<Rightarrow> nat \<Rightarrow> string \<Rightarrow> nat option" where
  "indexOfFrom p from s = map_option (\<lambda>i. i + from) (indexOf p (drop from s))"

text \<open>\<open>s.split('\n')\<close>: always at least one piece.\<close>

fun splitLines :: "string \<Rightarrow> string list" where
  "splitLines [] = [[]]"
| "splitLines (c # cs) =
     (if c = CHR 0x0A then [] # splitLines cs
      else (case splitLines cs of l # ls \<Rightarrow> (c # l) # ls | [] \<Rightarrow> [[c]]))"

subsection \<open>Comment stripping (lines 3360--3391)\<close>

text \<open>
  The scan over the characters before the first \<open>//\<close> of a line (lines 3369--3381): the
  state is \<open>inString\<close> with \<open>stringChar\<close>, and \<open>prevChar\<close> is the character before.
\<close>

fun quoteScan :: "bool \<Rightarrow> char \<Rightarrow> char option \<Rightarrow> string \<Rightarrow> bool" where
  "quoteScan inString stringChar prevChar [] = inString"
| "quoteScan inString stringChar prevChar (c # cs) =
     (if \<not> inString \<and> (c = CHR 0x22 \<or> c = CHR 0x27) then quoteScan True c (Some c) cs
      else if inString \<and> c = stringChar \<and> prevChar \<noteq> Some (CHR 0x5C) then quoteScan False stringChar (Some c) cs
      else quoteScan inString stringChar (Some c) cs)"

definition cleanLine :: "string \<Rightarrow> string" where
  "cleanLine line =
     (case indexOf ''//'' line of
        None \<Rightarrow> line
      | Some commentIdx \<Rightarrow>
          if \<not> quoteScan False (CHR 0x00) None (take commentIdx line)
          then trimEnd (take commentIdx line)
          else line)"

definition removeLineComments :: "string \<Rightarrow> string" where
  "removeLineComments code = join nl (map cleanLine (splitLines code))"

text \<open>
  \<open>code.replace(/\/\*[\s\S]*?\*\//g, '')\<close>: every \<open>/*\<close> that has a later \<open>*/\<close> is removed
  up to and including the nearest one, and the search goes on after it.
\<close>

fun removeBlockComments :: "string \<Rightarrow> string" where
  "removeBlockComments (c1 # c2 # rest) =
     (if c1 = CHR ''/'' \<and> c2 = CHR ''*'' then
        (case indexOf ''*/'' rest of
           Some n \<Rightarrow> removeBlockComments (drop (n + 2) rest)
         | None \<Rightarrow> c1 # removeBlockComments (c2 # rest))
      else c1 # removeBlockComments (c2 # rest))"
| "removeBlockComments cs = cs"

definition stripComments :: "string \<Rightarrow> string" where
  "stripComments code = removeBlockComments (removeLineComments code)"

subsection \<open>Locating the literal (lines 3393--3459)\<close>

text \<open>
  The brace-matching loop (lines 3417--3451) from position \<open>i\<close> on: \<open>cs\<close> is what is left
  of the text, \<open>prevChar\<close> and \<open>prevPrevChar\<close> the two characters before it.  The result is
  \<open>endIdx\<close>, or the brace count reached at the end of the text.
\<close>

fun matchBraces :: "int \<Rightarrow> bool \<Rightarrow> char \<Rightarrow> char option \<Rightarrow> char option \<Rightarrow> nat \<Rightarrow> string \<Rightarrow> int + nat" where
  "matchBraces braceCount inString stringChar prevChar prevPrevChar i [] = Inl braceCount"
| "matchBraces braceCount inString stringChar prevChar prevPrevChar i (c # cs) =
     (if \<not> inString \<and> (c = CHR 0x22 \<or> c = CHR 0x27) then
        matchBraces braceCount True c (Some c) prevChar (Suc i) cs
      else if inString then
        (if c = stringChar \<and> prevChar = Some (CHR 0x5C) \<and> prevPrevChar \<noteq> Some (CHR 0x5C) then
           matchBraces braceCount inString stringChar (Some c) prevChar (Suc i) cs
         else if c = stringChar \<and> prevChar \<noteq> Some (CHR 0x5C) then
           matchBraces braceCount False stringChar (Some c) prevChar (Suc i) cs
         else matchBraces braceCount inString stringChar (Some c) prevChar (Suc i) cs)
      else if c = CHR ''{'' then
        matchBraces (braceCount + 1) inString stringChar (Some c) prevChar (Suc i) cs
      else if c = CHR ''}'' then
        (if braceCount - 1 = 0 then Inr (Suc i)
         else matchBraces (braceCount - 1) inString stringChar (Some c) prevChar (Suc i) cs)
      else matchBraces braceCount inString stringChar (Some c) prevChar (Suc i) cs)"

definition charAt :: "string \<Rightarrow> nat \<Rightarrow> char option" where
  "charAt s i = (if i < length s then Some (s ! i) else None)"

text \<open>
  The errors thrown inside the \<open>try\<close> block, by their messages.  The last one is the
  \<open>TypeError\<close> of the call \<open>config.hasOwnProperty(...)\<close> (lines 3483--3485) when that property
  is not a function.
\<close>

datatype parse_failure =
    NoObject
  | NoOpeningBrace
  | NoClosingBrace int
  | EvalFailure string
  | NotAnObject
  | HasOwnPropertyNotAFunction

fun failure_message :: "parse_failure \<Rightarrow> string" where
  "failure_message NoObject =
     ''Could not find object in code. Make sure the code includes Fretboard.init({...}) or {...}''"
| "failure_message NoOpeningBrace = ''Could not find opening brace after Fretboard.init(''"
| "failure_message (NoClosingBrace braceCount) =
     ''Could not find matching closing brace. The code may be incomplete. Brace count: '' @ show_int braceCount"
| "failure_message (EvalFailure msg) =
     ''Error parsing object: '' @ msg @ ''. Please check the code syntax.''"
| "failure_message NotAnObject = ''Parsed result is not an object''"
| "failure_message HasOwnPropertyNotAFunction = ''config.hasOwnProperty is not a function''"

text \<open>Lines 3395--3459: the text of the literal, or the failure.\<close>

definition extractObject :: "string \<Rightarrow> parse_failure + string" where
  "extractObject code =
     (case (case indexOf ''Fretboard.init('' code of
              None \<Rightarrow> (case indexOf ''{'' code of None \<Rightarrow> Inl NoObject | Some i \<Rightarrow> Inr i)
            | Some i \<Rightarrow> (case indexOfFrom ''{'' i code of None \<Rightarrow> Inl NoOpeningBrace | Some j \<Rightarrow> Inr j)) of
        Inl e \<Rightarrow> Inl e
      | Inr startIdx \<Rightarrow>
          (case matchBraces 0 False (CHR 0x00)
                  (if startIdx > 0 then charAt code (startIdx - 1) else None)
                  (if startIdx > 1 then charAt code (startIdx - 2) else None)
                  startIdx (drop startIdx code) of
             Inl braceCount \<Rightarrow> Inl (NoClosingBrace braceCount)
           | Inr endIdx \<Rightarrow> Inr (take (endIdx - startIdx) (drop startIdx code))))"


subsection \<open>Evaluation and the result (lines 3461--3500)\<close>

text \<open>
  \<open>new Function('return ' + objStr)()\<close> runs the text as a program of the language on the
  page: it may change the state of the page (the text may call the library), and it ends
  by throwing or by returning a value.  The decoder is modelled for an arbitrary evaluator
  \<open>ev\<close>, from the text and the state of the page to the new state and the outcome.  The
  flag of \<open>Returns\<close> says whether the value inherits from \<open>Object.prototype\<close>; for an object
  written \<open>{__proto__: null, ...}\<close> it does not.
\<close>

datatype evaluation = Throws string | Returns jsval bool

type_synonym 'st evaluator = "string \<Rightarrow> 'st \<Rightarrow> 'st \<times> evaluation"

text \<open>\<open>typeof v === 'object'\<close>.\<close>

fun typeofObject :: "jsval \<Rightarrow> bool" where
  "typeofObject JNull = True"
| "typeofObject (JArr _) = True"
| "typeofObject (JObj _) = True"
| "typeofObject _ = False"

text \<open>
  Whether \<open>config.hasOwnProperty\<close> is the method of \<open>Object.prototype\<close>: the object has no own
  property of that name (a value of a data literal is never a function) and inherits from
  \<open>Object.prototype\<close>.
\<close>

fun hasOwnPropertyCallable :: "jsval \<Rightarrow> bool \<Rightarrow> bool" where
  "hasOwnPropertyCallable (JObj ps) inherits = (\<not> js_has ps ''hasOwnProperty'' \<and> inherits)"
| "hasOwnPropertyCallable v inherits = inherits"

text \<open>\<open>config.hasOwnProperty(k) ? config[k] : null\<close> for a settings group name \<open>k\<close>.\<close>

fun ownOrNull :: "jsval \<Rightarrow> string \<Rightarrow> jsval" where
  "ownOrNull (JObj ps) k = (if js_has ps k then js_get ps k else JNull)"
| "ownOrNull _ k = JNull"

text \<open>
  The body of the \<open>try\<close> block (lines 3354--3491): the state of the page afterwards, and the
  settings or the error thrown.
\<close>

definition decodeObject :: "'st evaluator \<Rightarrow> string \<Rightarrow> 'st \<Rightarrow> 'st \<times> (parse_failure + jsval)" where
  "decodeObject ev code st =
     (case extractObject (stripComments (trim code)) of
        Inl e \<Rightarrow> (st, Inl e)
      | Inr objStr \<Rightarrow>
          (case ev (''return '' @ objStr) st of
             (st', Throws msg) \<Rightarrow> (st', Inl (EvalFailure msg))
           | (st', Returns config inherits) \<Rightarrow>
               if \<not> truthy config \<or> \<not> typeofObject config then (st', Inl NotAnObject)
               else if \<not> hasOwnPropertyCallable config inherits then (st', Inl HasOwnPropertyNotAFunction)
               else (st', Inr (JObj [(''settingsGroupA'', ownOrNull config ''settingsGroupA''),
                                     (''settingsGroupB'', ownOrNull config ''settingsGroupB''),
                                     (''settingsGroupC'', ownOrNull config ''settingsGroupC'')]))))"

text \<open>
  \<open>parseExportCode(code)\<close> (lines 3352--3501): the \<open>catch\<close> block throws a new error whose
  message is \<open>'Invalid code format: '\<close> followed by the message caught.
\<close>

definition parseExportCode :: "'st evaluator \<Rightarrow> string \<Rightarrow> 'st \<Rightarrow> 'st \<times> (string + jsval)" where
  "parseExportCode ev code st =
     (case decodeObject ev code st of
        (st', Inl err) \<Rightarrow> (st', Inl (''Invalid code format: '' @ failure_message err))
      | (st', Inr settings) \<Rightarrow> (st', Inr settings))"

subsection \<open>The import button (lines 3301--3335)\<close>

text \<open>
  The import dialog over a page: \<open>pageState\<close> is the state of the page that the evaluation
  of the text and \<open>applyImportedSettings\<close> can change, \<open>errorText\<close> and \<open>errorShown\<close> are the
  error area, \<open>overlayOpen\<close> the dialog.
\<close>

record 'st import_dialog =
  pageState :: 'st
  errorText :: string
  errorShown :: bool
  overlayOpen :: bool

text \<open>
  The click handler of the import button.  \<open>applySettings\<close> stands for
  \<open>applyImportedSettings\<close>: it returns the page state it leaves and, when it throws, the
  message.
\<close>

definition importClick ::
  "'st evaluator \<Rightarrow> (jsval \<Rightarrow> 'st \<Rightarrow> 'st \<times> string option) \<Rightarrow> string \<Rightarrow> 'st import_dialog \<Rightarrow> 'st import_dialog" where
  "importClick ev applySettings textareaValue ui =
     (let code = trim textareaValue
      in if code = [] then ui\<lparr>errorText := ''Please paste the exported code.'', errorShown := True\<rparr>
         else
           let ui1 = ui\<lparr>errorShown := False\<rparr>
           in case parseExportCode ev code (pageState ui1) of
                (st1, Inl msg) \<Rightarrow>
                  ui1\<lparr>pageState := st1,
                      errorText := ''Error: '' @ msg @ '' (Check console for details)'', errorShown := True\<rparr>
              | (st1, Inr settings) \<Rightarrow>
                  (case settings of
                     JObj ps \<Rightarrow>
                       if truthy (js_get ps ''settingsGroupA'') \<or> truthy (js_get ps ''settingsGroupB'') \<or>
                          truthy (js_get ps ''settingsGroupC'')
                       then (case applySettings settings st1 of
                               (st, None) \<Rightarrow> ui1\<lparr>pageState := st, errorShown := False, overlayOpen := False\<rparr>
                             | (st, Some msg) \<Rightarrow>
                                 ui1\<lparr>pageState := st,
                                     errorText := ''Error: '' @ msg @ '' (Check console for details)'',
                                     errorShown := True\<rparr>)
                       else ui1\<lparr>pageState := st1,
                                errorText := ''Could not parse the code or no settings found. Please check the format.'',
                                errorShown := True\<rparr>
                   | _ \<Rightarrow> ui1\<lparr>pageState := st1,
                              errorText := ''Could not parse the code or no settings found. Please check the format.'',
                              errorShown := True\<rparr>))"

text \<open>Opening minus closing braces of a text.\<close>

definition braceBalance :: "string \<Rightarrow> int" where
  "braceBalance cs = int (count_list cs (CHR ''{'')) - int (count_list cs (CHR ''}''))"

subsection \<open>A chord name with a quotation mark\<close>

text \<open>
  A snapshot whose chord name is \<open>Emaj 12"\<close>, with one dot on string 2 at fret 1, and its
  export with all three groups included.
\<close>

definition inchNameState :: export_state where
  "inchNameState =
     \<lparr>settingsGroupA = None, settingsGroupB = None,
      settingsGroupC = Some \<lparr>name = Some (''Emaj 12'' @ [CHR 0x22]), root = Some ''E'',
        startFret = Some 1, numFrets = Some 4,
        fingering = Some [\<lparr>string = 2, fret = VNum 1, finger = VNum 1\<rparr>]\<rparr>\<rparr>"

definition inchNameExport :: "bool \<Rightarrow> string" where
  "inchNameExport includeAllVariables =
     generateExportCode (\<lambda>v. []) ''my-fretboard'' inchNameState ''fretboard1'' True True True includeAllVariables"

section \<open>The rendered diagram and its dot state\<close>

text \<open>
  One fretboard instance whose HTML structure has been generated.  Of the page, the model
  keeps what the dot state depends on.  A \<open>piece\<close> is a string column of a fret row (a
  \<open>.fingerboard_piece_wrapper\<close> holding a \<open>.fingering_dot\<close> and a \<open>.fingering_dot_unplayed\<close>):
  the classes \<open>active\<close> and \<open>removing\<close> of both, and the text, \<open>data-note\<close> and
  \<open>data-finger\<close> of the dot's label.  The wrappers of the header, the nut and the fret
  dividers hold no dots: every lookup that reaches one of them finds no dot and does
  nothing, as a lookup out of range does.  Interval labels, colours and the visibility of
  rows are not part of the model.
\<close>

record piece =
  dotActive :: bool
  dotRemoving :: bool
  dotText :: string
  dataNote :: "string option"
  dataFinger :: "string option"
  unplayedActive :: bool
  unplayedRemoving :: bool

datatype marker_kind = DotMarker | UnplayedMarker

text \<open>
  A pending \<open>setTimeout(() => el.classList.remove('active', 'removing'), 200)\<close>: the
  element is named by its fret row, its column and its kind.
\<close>

record timer =
  timerFret :: nat
  timerIndex :: nat
  timerKind :: marker_kind

text \<open>An element of \<open>PERSISTENT_DOT_STATE\<close> (lines 479--497).\<close>

datatype saved_state =
    SavedDot int int string "string option" "string option"
  | SavedUnplayed int int

text \<open>
  \<open>fretRows ! f\<close> is the row with id \<open>..._chord_builder_fret_row_wrapper_f\<close>; the rows are
  in document order.  \<open>pendingTimers\<close> holds the scheduled removals, oldest first (all have
  the same delay, so they run in the order they were scheduled).  \<open>numStringsVar\<close> is
  \<open>parseInt\<close> of the style variable \<open>--num-strings\<close>.  The remaining fields are the
  module's variables of the same names.
\<close>

record fretboard =
  fretRows :: "piece list list"
  pendingTimers :: "timer list"
  PERSISTENT_DOT_STATE :: "saved_state list"
  TUNING :: "(int \<times> string) list"
  DOT_TEXT_MODE :: string
  STRING_TYPE :: string
  START_FRET :: int
  numStringsVar :: "int option"
  groupA_numStrings :: "int option"
  groupA_stringType :: "string option"
  groupA_tuning :: "(int \<times> string) list option"
  isInitialized :: bool

subsection \<open>Notes\<close>

definition CHROMATIC_SCALE :: "string list" where
  "CHROMATIC_SCALE = [''C'', ''C#'', ''D'', ''D#'', ''E'', ''F'', ''F#'', ''G'', ''G#'', ''A'', ''A#'', ''B'']"

definition defaultTUNING :: "(int \<times> string) list" where
  "defaultTUNING =
     [(1, ''E''), (2, ''A''), (3, ''D''), (4, ''G''), (5, ''B''), (6, ''E''), (7, ''B''),
      (8, ''F#''), (9, ''C#''), (10, ''G#'')]"

text \<open>\<open>xs.indexOf(x)\<close> on an array, \<open>-1\<close> when absent.\<close>

fun arrayIndexOf :: "'a list \<Rightarrow> 'a \<Rightarrow> int" where
  "arrayIndexOf [] x = - 1"
| "arrayIndexOf (y # ys) x =
     (if y = x then 0 else (let i = arrayIndexOf ys x in if i < 0 then - 1 else i + 1))"

text \<open>The remainder operator \<open>%\<close>, whose sign is that of the dividend.\<close>

definition js_rem :: "int \<Rightarrow> int \<Rightarrow> int" where
  "js_rem a b = (if a < 0 then - ((- a) mod b) else a mod b)"

text \<open>\<open>getNoteAtFret\<close> (lines 268--274); \<open>None\<close> is a falsy result.\<close>

definition getNoteAtFret :: "(int \<times> string) list \<Rightarrow> int \<Rightarrow> int \<Rightarrow> string option" where
  "getNoteAtFret tuningMap stringIndex fretNo =
     (case map_of tuningMap stringIndex of
        None \<Rightarrow> None
      | Some openNote \<Rightarrow>
          if openNote = [] then None
          else
            let openNoteIndex = arrayIndexOf CHROMATIC_SCALE openNote;
                noteIndex = js_rem (openNoteIndex + fretNo) 12
            in if 0 \<le> noteIndex \<and> nat noteIndex < length CHROMATIC_SCALE
               then Some (CHROMATIC_SCALE ! nat noteIndex) else None)"

subsection \<open>Access to the pieces\<close>

text \<open>
  \<open>wrappers[i]\<close> of the row with number \<open>f\<close>, when both exist, rewritten by \<open>g\<close>.
\<close>

definition updatePiece :: "nat \<Rightarrow> nat \<Rightarrow> (piece \<Rightarrow> piece) \<Rightarrow> piece list list \<Rightarrow> piece list list" where
  "updatePiece f i g rows =
     (if f < length rows \<and> i < length (rows ! f) then rows[f := (rows ! f)[i := g ((rows ! f) ! i)]]
      else rows)"

definition pieceAt :: "piece list list \<Rightarrow> nat \<Rightarrow> nat \<Rightarrow> piece option" where
  "pieceAt rows f i = (if f < length rows \<and> i < length (rows ! f) then Some ((rows ! f) ! i) else None)"

text \<open>All pieces in document order, with their fret and column numbers.\<close>

definition allPieces :: "piece list list \<Rightarrow> (nat \<times> nat \<times> piece) list" where
  "allPieces rows =
     concat (map (\<lambda>(f, row). map (\<lambda>(i, p). (f, i, p)) (enumerate 0 row)) (enumerate 0 rows))"

subsection \<open>Timers\<close>

text \<open>What a timer does when it runs: \<open>classList.remove('active', 'removing')\<close>.\<close>

definition removeClasses :: "marker_kind \<Rightarrow> piece \<Rightarrow> piece" where
  "removeClasses k p =
     (case k of
        DotMarker \<Rightarrow> p\<lparr>dotActive := False, dotRemoving := False\<rparr>
      | UnplayedMarker \<Rightarrow> p\<lparr>unplayedActive := False, unplayedRemoving := False\<rparr>)"


text \<open>All pending timers run: the state once 200ms have passed without another event.\<close>

fun runTimers :: "timer list \<Rightarrow> piece list list \<Rightarrow> piece list list" where
  "runTimers [] rows = rows"
| "runTimers (t # ts) rows =
     runTimers ts (updatePiece (timerFret t) (timerIndex t) (removeClasses (timerKind t)) rows)"

definition settle :: "fretboard \<Rightarrow> fretboard" where
  "settle s = s\<lparr>fretRows := runTimers (pendingTimers s) (fretRows s), pendingTimers := []\<rparr>"

subsection \<open>Saving, restoring and reading the dot state\<close>

text \<open>\<open>saveDotState\<close> (lines 428--501), for the rows of this instance.\<close>

definition savePiece :: "nat \<times> nat \<times> piece \<Rightarrow> saved_state list" where
  "savePiece x =
     (case x of (f, i, p) \<Rightarrow>
        if dotActive p then [SavedDot (int f) (int i + 1) (dotText p) (dataNote p) (dataFinger p)]
        else if unplayedActive p then [SavedUnplayed (if f = 0 then - 1 else int f) (int i + 1)]
        else [])"

definition saveDotState :: "fretboard \<Rightarrow> fretboard" where
  "saveDotState s = s\<lparr>PERSISTENT_DOT_STATE := concat (map savePiece (allPieces (fretRows s)))\<rparr>"

text \<open>A string attribute that is present and not empty.\<close>

definition truthyStr :: "string option \<Rightarrow> bool" where
  "truthyStr v = (case v of None \<Rightarrow> False | Some x \<Rightarrow> x \<noteq> [])"

text \<open>
  \<open>restoreDotState\<close> (lines 604--657): the row is looked up by the saved fret number, the
  wrapper by the saved string number minus one.
\<close>

definition restoreOne :: "saved_state \<Rightarrow> piece list list \<Rightarrow> piece list list" where
  "restoreOne st rows =
     (case st of
        SavedDot f str txt noteData fingerData \<Rightarrow>
          if 0 \<le> f \<and> 0 \<le> str - 1 then
            updatePiece (nat f) (nat (str - 1))
              (\<lambda>p. p\<lparr>dotActive := True, dotText := txt,
                     dataNote := (if truthyStr noteData then noteData else dataNote p),
                     dataFinger := (if truthyStr fingerData then fingerData else dataFinger p)\<rparr>) rows
          else rows
      | SavedUnplayed f str \<Rightarrow>
          if 0 \<le> f \<and> 0 \<le> str - 1 then
            updatePiece (nat f) (nat (str - 1)) (\<lambda>p. p\<lparr>unplayedActive := True\<rparr>) rows
          else rows)"

definition restoreDotState :: "fretboard \<Rightarrow> fretboard" where
  "restoreDotState s = s\<lparr>fretRows := foldl (\<lambda>rows st. restoreOne st rows) (fretRows s) (PERSISTENT_DOT_STATE s)\<rparr>"

text \<open>
  \<open>parseInt(s)\<close> in base ten: leading white space, an optional sign, then the longest run
  of digits; \<open>NaN\<close> when there is no digit.
\<close>

definition is_digit :: "char \<Rightarrow> bool" where
  "is_digit c = (CHR ''0'' \<le> c \<and> c \<le> CHR ''9'')"

definition digit_val :: "char \<Rightarrow> nat" where
  "digit_val c = of_char c - 48"

definition digits_val :: "string \<Rightarrow> nat" where
  "digits_val ds = foldl (\<lambda>acc c. acc * 10 + digit_val c) 0 ds"

definition parseInt :: "string \<Rightarrow> jv" where
  "parseInt s =
     (let t = trimStart s;
          neg = (t \<noteq> [] \<and> hd t = CHR ''-'');
          body = (if t \<noteq> [] \<and> (hd t = CHR ''-'' \<or> hd t = CHR ''+'') then tl t else t);
          ds = takeWhile is_digit body
      in if ds = [] then VNaN
         else VNum (if neg then - int (digits_val ds) else int (digits_val ds)))"

text \<open>\<open>getFingeringFromDotState(fretboardId)\<close> (lines 509--579), reading the page.\<close>

definition derivePiece :: "nat \<times> nat \<times> piece \<Rightarrow> fingering_entry list" where
  "derivePiece x =
     (case x of (f, i, p) \<Rightarrow>
        if dotActive p then
          [\<lparr>string = int i + 1, fret = VNum (int f),
            finger = (if truthyStr (dataFinger p) then parseInt (the (dataFinger p)) else VNum 0)\<rparr>]
        else if unplayedActive p \<and> f = 0 then
          [\<lparr>string = int i + 1, fret = VNum (- 1), finger = VNum 0\<rparr>]
        else [])"

definition getFingeringFromDotState :: "fretboard \<Rightarrow> fingering_entry list" where
  "getFingeringFromDotState s = concat (map derivePiece (allPieces (fretRows s)))"


subsection \<open>Generating the rows\<close>

definition freshPiece :: "string \<Rightarrow> piece" where
  "freshPiece txt =
     \<lparr>dotActive = False, dotRemoving = False, dotText = txt, dataNote = None, dataFinger = None,
      unplayedActive = False, unplayedRemoving = False\<rparr>"

text \<open>\<open>parseInt(getPropertyValue('--num-strings')) || 6\<close>.\<close>

definition currentNumStrings :: "fretboard \<Rightarrow> int" where
  "currentNumStrings s = (case numStringsVar s of None \<Rightarrow> 6 | Some v \<Rightarrow> if v = 0 then 6 else v)"

text \<open>
  \<open>initializeDynamicStrings\<close> (lines 1362--1535) rewrites the fret-0 row: one new piece per
  string, labelled with the open note.  The elements it replaces leave the page, so a
  timer that holds one of them no longer changes anything on the page and is dropped.
\<close>

definition initializeDynamicStrings :: "fretboard \<Rightarrow> fretboard" where
  "initializeDynamicStrings s =
     s\<lparr>fretRows :=
          map (\<lambda>i. freshPiece (case map_of (TUNING s) i of None \<Rightarrow> [] | Some t \<Rightarrow> t))
              [1 .. currentNumStrings s] # tl (fretRows s),
       pendingTimers := filter (\<lambda>t. timerFret t \<noteq> 0) (pendingTimers s)\<rparr>"

text \<open>
  \<open>generateFretRows(forceRegenerate)\<close> (lines 747--960): when rows 1 to 24 exist and
  regeneration is not forced only their visibility changes; otherwise they are removed and
  created anew, with at most ten string columns.
\<close>

definition generateFretRows :: "bool \<Rightarrow> fretboard \<Rightarrow> fretboard" where
  "generateFretRows forceRegenerate s =
     (if length (fretRows s) > 1 \<and> \<not> forceRegenerate then s
      else
        s\<lparr>fretRows :=
             take 1 (fretRows s) @
             replicate 24 (replicate (nat (min (currentNumStrings s) 10)) (freshPiece ''1'')),
          pendingTimers := filter (\<lambda>t. timerFret t = 0) (pendingTimers s)\<rparr>)"

subsection \<open>Clearing\<close>

definition dotTimers :: "piece list list \<Rightarrow> timer list" where
  "dotTimers rows =
     concat (map (\<lambda>(f, i, p). if dotActive p then [\<lparr>timerFret = f, timerIndex = i, timerKind = DotMarker\<rparr>] else [])
                 (allPieces rows))"

definition unplayedTimers :: "piece list list \<Rightarrow> timer list" where
  "unplayedTimers rows =
     concat (map (\<lambda>(f, i, p). if unplayedActive p then [\<lparr>timerFret = f, timerIndex = i, timerKind = UnplayedMarker\<rparr>] else [])
                 (allPieces rows))"

text \<open>An element that is \<open>active\<close> is given the class \<open>removing\<close>.\<close>

definition markRemoving :: "piece \<Rightarrow> piece" where
  "markRemoving p =
     p\<lparr>dotRemoving := dotRemoving p \<or> dotActive p,
       unplayedRemoving := unplayedRemoving p \<or> unplayedActive p\<rparr>"

text \<open>
  \<open>clearChord(fretboardId)\<close> (lines 1588--1662): every active dot, then every active
  muted marker, is marked \<open>removing\<close> and loses \<open>active\<close> 200ms later.
\<close>

definition clearChord :: "fretboard \<Rightarrow> fretboard" where
  "clearChord s =
     s\<lparr>fretRows := map (map markRemoving) (fretRows s),
       pendingTimers := pendingTimers s @ dotTimers (fretRows s) @ unplayedTimers (fretRows s)\<rparr>"

text \<open>
  \<open>clearStringDots(stringNumber)\<close> (lines 1215--1241): in every row, the piece of that
  string; the dot first, then the muted marker.
\<close>

definition stringTimers :: "nat \<Rightarrow> piece list list \<Rightarrow> timer list" where
  "stringTimers arrayIndex rows =
     concat (map (\<lambda>(f, row).
                    if arrayIndex < length row then
                      (if dotActive (row ! arrayIndex)
                       then [\<lparr>timerFret = f, timerIndex = arrayIndex, timerKind = DotMarker\<rparr>] else []) @
                      (if unplayedActive (row ! arrayIndex)
                       then [\<lparr>timerFret = f, timerIndex = arrayIndex, timerKind = UnplayedMarker\<rparr>] else [])
                    else [])
                 (enumerate 0 rows))"

definition clearStringDots :: "int \<Rightarrow> fretboard \<Rightarrow> fretboard" where
  "clearStringDots stringNumber s =
     (if stringNumber - 1 < 0 then s
      else
        let arrayIndex = nat (stringNumber - 1)
        in s\<lparr>fretRows := map (\<lambda>row. if arrayIndex < length row then row[arrayIndex := markRemoving (row ! arrayIndex)] else row)
                              (fretRows s),
              pendingTimers := pendingTimers s @ stringTimers arrayIndex (fretRows s)\<rparr>)"

subsection \<open>The fret window\<close>

text \<open>
  \<open>setChordConfiguration\<close> (lines 1537--1586).  On an initialized instance the dot state is
  saved, the rows are passed through \<open>generateFretRows(false)\<close>, and the saved state is
  restored.
\<close>

definition setChordConfiguration :: "int \<Rightarrow> fretboard \<Rightarrow> fretboard" where
  "setChordConfiguration startFretArg s =
     (let s1 = s\<lparr>START_FRET := startFretArg\<rparr>
      in if isInitialized s1 then
           let s2 = saveDotState s1;
               savedDotState = PERSISTENT_DOT_STATE s2;
               s3 = generateFretRows False s2
           in restoreDotState (s3\<lparr>PERSISTENT_DOT_STATE := savedDotState\<rparr>)
         else generateFretRows False s1)"

subsection \<open>Applying a fingering: \<open>displayChord\<close>\<close>

text \<open>
  The chord configuration; \<open>None\<close> is a property left out, for which \<open>displayChord\<close>
  takes its default.
\<close>

record chordConfig =
  cfgFingering :: "fingering_entry list"
  cfgTuning :: "(int \<times> string) list option"
  cfgNumStrings :: "int option"
  cfgStringType :: "string option"
  cfgDisplayMode :: "string option"
  cfgStartFret :: "int option"

text \<open>The entries \<open>displayChord\<close> does not skip (lines 1722 and 1786).\<close>

definition usableFret :: "fingering_entry \<Rightarrow> bool" where
  "usableFret f = (fret f \<noteq> VNull \<and> fret f \<noteq> VUndefined \<and> fret f \<noteq> VNone)"

text \<open>Lines 1719--1727.\<close>

definition calculatedNumStrings :: "chordConfig \<Rightarrow> fretboard \<Rightarrow> int option" where
  "calculatedNumStrings cfg s =
     (let numStringsArg =
            (case cfgNumStrings cfg of
               Some n \<Rightarrow> Some n
             | None \<Rightarrow> (case groupA_numStrings s of None \<Rightarrow> None | Some n \<Rightarrow> if n = 0 then None else Some n))
      in if numStringsArg = None \<and> length (cfgFingering cfg) > 0 then
           (let usable = filter usableFret (cfgFingering cfg)
            in if length usable > 0 then Some (Max (set (map string usable))) else None)
         else numStringsArg)"

definition targetStringType :: "chordConfig \<Rightarrow> fretboard \<Rightarrow> string" where
  "targetStringType cfg s =
     (case cfgStringType cfg of
        Some t \<Rightarrow> t
      | None \<Rightarrow> (case groupA_stringType s of None \<Rightarrow> ''1'' | Some t \<Rightarrow> if t = [] then ''1'' else t))"

definition effectiveTuning :: "chordConfig \<Rightarrow> fretboard \<Rightarrow> (int \<times> string) list option" where
  "effectiveTuning cfg s = (case cfgTuning cfg of Some t \<Rightarrow> Some t | None \<Rightarrow> groupA_tuning s)"

text \<open>The body of the loop over the entries (lines 1784--1871).\<close>

definition applyEntry :: "(int \<times> string) list \<Rightarrow> string \<Rightarrow> fingering_entry \<Rightarrow> piece list list \<Rightarrow> piece list list" where
  "applyEntry tuningMap displayMode e rows =
     (if fret e = VNull \<or> fret e = VUndefined \<or> fret e = VNone then rows
      else if string e - 1 < 0 then rows
      else if fret e = VNum (- 1) then
        updatePiece 0 (nat (string e - 1)) (\<lambda>p. p\<lparr>unplayedActive := True\<rparr>) rows
      else
        (case fret e of
           VNum n \<Rightarrow>
             if n < 0 then rows
             else
               updatePiece (nat n) (nat (string e - 1))
                 (\<lambda>p. p\<lparr>dotActive := True,
                        dataFinger := (if finger e \<noteq> VUndefined \<and> finger e \<noteq> VNull
                                       then Some (jv_to_string (finger e)) else dataFinger p),
                        dotText :=
                          (if displayMode = ''finger'' \<and> finger e \<noteq> VUndefined
                           then (if finger e = VNull then [] else jv_to_string (finger e))
                           else if displayMode = ''note'' \<and> getNoteAtFret tuningMap (string e) n \<noteq> None
                           then the (getNoteAtFret tuningMap (string e) n)
                           else dotText p)\<rparr>) rows
         | _ \<Rightarrow> rows))"

text \<open>
  Lines 1719--1776 of \<open>displayChord\<close>: the string count and string type are brought in
  line with the chord, the chord's tuning is written over \<open>TUNING\<close>, and the rows are
  regenerated when the count or the type changed.
\<close>

definition displayChordLayout :: "chordConfig \<Rightarrow> fretboard \<Rightarrow> fretboard" where
  "displayChordLayout cfg s1 =
     (let calc = calculatedNumStrings cfg s1;
          regenA = (case calc of None \<Rightarrow> False | Some n \<Rightarrow> currentNumStrings s1 \<noteq> n);
          s2 = (case calc of None \<Rightarrow> s1
                | Some n \<Rightarrow> if currentNumStrings s1 \<noteq> n then s1\<lparr>numStringsVar := Some n\<rparr> else s1);
          regenB = (STRING_TYPE s2 \<noteq> targetStringType cfg s2);
          s3 = s2\<lparr>STRING_TYPE := targetStringType cfg s2\<rparr>;
          s4 = (case effectiveTuning cfg s3 of
                  None \<Rightarrow> s3
                | Some t \<Rightarrow> s3\<lparr>TUNING := spread (TUNING s3) t\<rparr>)
      in if regenA \<or> regenB then generateFretRows True (initializeDynamicStrings s4) else s4)"

text \<open>
  \<open>displayChord(chordConfig, fretboardId)\<close> (lines 1669--1890): clear, adjust the layout,
  set the fret window, apply the entries, put the former tuning back over \<open>TUNING\<close>, save
  the dot state.
\<close>

definition displayChord :: "chordConfig \<Rightarrow> fretboard \<Rightarrow> fretboard" where
  "displayChord cfg s0 =
     (let s1 = clearChord s0;
          originalTuning = TUNING s1;
          s5 = displayChordLayout cfg s1;
          s6 = setChordConfiguration (case cfgStartFret cfg of None \<Rightarrow> 1 | Some f \<Rightarrow> f) s5;
          displayMode = (case cfgDisplayMode cfg of None \<Rightarrow> DOT_TEXT_MODE s6 | Some m \<Rightarrow> m);
          s7 = s6\<lparr>fretRows := foldl (\<lambda>rows e. applyEntry (TUNING s6) displayMode e rows) (fretRows s6) (cfgFingering cfg)\<rparr>;
          s8 = (case effectiveTuning cfg s1 of
                  None \<Rightarrow> s7
                | Some t \<Rightarrow> s7\<lparr>TUNING := spread (TUNING s7) originalTuning\<rparr>)
      in saveDotState s8)"

subsection \<open>Clicks\<close>






subsection \<open>Changing the layout: \<open>updateSettingsGroupA\<close>\<close>

text \<open>
  The branches of \<open>updateSettingsGroupA(settings, fretboardId)\<close> for \<open>numStrings\<close> and
  \<open>stringType\<close> (lines 2093--2153), called with the id of this instance.
\<close>

definition regenerateKeepingDots :: "fretboard \<Rightarrow> fretboard" where
  "regenerateKeepingDots s =
     (let s1 = saveDotState s;
          savedDotState = PERSISTENT_DOT_STATE s1;
          s2 = generateFretRows True (initializeDynamicStrings s1)
      in restoreDotState (s2\<lparr>PERSISTENT_DOT_STATE := savedDotState\<rparr>))"

definition updateSettingsGroupA :: "int option \<Rightarrow> string option \<Rightarrow> fretboard \<Rightarrow> fretboard" where
  "updateSettingsGroupA newNumStrings newStringType s =
     (let s1 = (case newNumStrings of
                  None \<Rightarrow> s
                | Some n \<Rightarrow>
                    let t = s\<lparr>groupA_numStrings := Some n, numStringsVar := Some n\<rparr>
                    in if isInitialized t then regenerateKeepingDots t else t)
      in (case newStringType of
            None \<Rightarrow> s1
          | Some ty \<Rightarrow>
              let t = s1\<lparr>groupA_stringType := Some ty, STRING_TYPE := ty\<rparr>
              in if isInitialized t then regenerateKeepingDots t else t))"

subsection \<open>An initialized diagram\<close>

text \<open>
  The diagram after \<open>init\<close> with the default settings and no chord: six strings, rows 0 to
  24, no active marker, nothing pending.
\<close>

definition initialFretboard :: fretboard where
  "initialFretboard =
     generateFretRows True (initializeDynamicStrings
       \<lparr>fretRows = [[]], pendingTimers = [], PERSISTENT_DOT_STATE = [], TUNING = defaultTUNING,
        DOT_TEXT_MODE = ''note'', STRING_TYPE = ''1'', START_FRET = 1, numStringsVar = Some 6,
        groupA_numStrings = Some 6, groupA_stringType = Some ''1'', groupA_tuning = None,
        isInitialized = True\<rparr>)"

definition simpleChord :: "fingering_entry list \<Rightarrow> chordConfig" where
  "simpleChord fs =
     \<lparr>cfgFingering = fs, cfgTuning = None, cfgNumStrings = None, cfgStringType = None,
      cfgDisplayMode = None, cfgStartFret = None\<rparr>"


subsection \<open>Properties of a diagram and of a fingering\<close>

text \<open>No dot and no muted marker is active.\<close>

definition noActiveMarkers :: "fretboard \<Rightarrow> bool" where
  "noActiveMarkers s =
     list_all (\<lambda>row. list_all (\<lambda>p. \<not> dotActive p \<and> \<not> unplayedActive p) row) (fretRows s)"

text \<open>Nothing is active and nothing is pending.\<close>

definition clean :: "fretboard \<Rightarrow> bool" where
  "clean s = (noActiveMarkers s \<and> pendingTimers s = [])"

text \<open>
  The piece an entry is applied to: a row number and a column index.  A muted entry
  (fret \<open>-1\<close>) goes to the fret-0 row.
\<close>

definition cellOf :: "fingering_entry \<Rightarrow> int \<times> int" where
  "cellOf e = ((case fret e of VNum n \<Rightarrow> if n = - 1 then 0 else n | _ \<Rightarrow> - 1), string e - 1)"

text \<open>
  An entry that names a piece of the diagram: the fret is \<open>-1\<close> or the number of a row,
  the string one of the row's columns; a playable entry carries a number as its finger.
\<close>

definition addressable :: "piece list list \<Rightarrow> fingering_entry \<Rightarrow> bool" where
  "addressable rows e =
     (case fret e of
        VNum n \<Rightarrow>
          1 \<le> string e \<and>
          (if n = - 1 then pieceAt rows 0 (nat (string e - 1)) \<noteq> None
           else 0 \<le> n \<and> pieceAt rows (nat n) (nat (string e - 1)) \<noteq> None \<and>
                (case finger e of VNum m \<Rightarrow> True | _ \<Rightarrow> False))
      | _ \<Rightarrow> False)"

text \<open>A muted entry is read back with finger \<open>0\<close>.\<close>

definition normalizeEntry :: "fingering_entry \<Rightarrow> fingering_entry" where
  "normalizeEntry e = (if fret e = VNum (- 1) then e\<lparr>finger := VNum 0\<rparr> else e)"

text \<open>The piece an entry is applied to holds no active marker.\<close>

definition emptyAt :: "piece list list \<Rightarrow> fingering_entry \<Rightarrow> bool" where
  "emptyAt rows e =
     (\<forall>p. pieceAt rows (nat (fst (cellOf e))) (nat (snd (cellOf e))) = Some p \<longrightarrow>
          \<not> dotActive p \<and> \<not> unplayedActive p)"


subsection \<open>Active markers\<close>

text \<open>
  A marker is named by its fret row, its column and its kind; its string is the column.
\<close>

definition kindActive :: "marker_kind \<Rightarrow> piece \<Rightarrow> bool" where
  "kindActive k p = (case k of DotMarker \<Rightarrow> dotActive p | UnplayedMarker \<Rightarrow> unplayedActive p)"

definition markerActive :: "piece list list \<Rightarrow> nat \<times> nat \<times> marker_kind \<Rightarrow> bool" where
  "markerActive rows m =
     (case m of (f, i, k) \<Rightarrow> (case pieceAt rows f i of None \<Rightarrow> False | Some p \<Rightarrow> kindActive k p))"


definition markerString :: "nat \<times> nat \<times> marker_kind \<Rightarrow> nat" where
  "markerString m = fst (snd m)"


definition timerMarker :: "timer \<Rightarrow> nat \<times> nat \<times> marker_kind" where
  "timerMarker t = (timerFret t, timerIndex t, timerKind t)"

text \<open>
  A marker is live when it is active and no pending timer is going to remove it: the live
  markers are the ones still active once every pending timer has run.
\<close>

definition live :: "fretboard \<Rightarrow> nat \<times> nat \<times> marker_kind \<Rightarrow> bool" where
  "live s m = (markerActive (fretRows s) m \<and> m \<notin> timerMarker ` set (pendingTimers s))"












text \<open>
  The initial diagram after a chord with a muted third string and a dot on the second
  string, first fret, has been applied to it.
\<close>

definition mutedThirdString :: fretboard where
  "mutedThirdString =
     displayChord (simpleChord [\<lparr>string = 3, fret = VNum (- 1), finger = VNum 0\<rparr>,
                                \<lparr>string = 2, fret = VNum 1, finger = VNum 1\<rparr>]) initialFretboard"


section \<open>An import whose text calls the library\<close>

text \<open>
  The text \<open>{a: (Fretboard.updateSettingsGroupA({numStrings: 4}), y)}\<close> pasted into the import
  dialog.  Its braces match, so it is handed to \<open>new Function\<close> as it is.  Evaluating the
  property value the engine first calls \<open>updateSettingsGroupA\<close> with \<open>numStrings\<close> 4, then
  looks up \<open>y\<close>, which is not defined, and throws a \<open>ReferenceError\<close>.  \<open>engineOnPastedCall\<close>
  is that behaviour on that text; other texts do not occur in the example.
\<close>

definition pastedCall :: string where
  "pastedCall = ''{a: (Fretboard.updateSettingsGroupA({numStrings: 4}), y)}''"

definition engineOnPastedCall :: "fretboard evaluator" where
  "engineOnPastedCall src st =
     (if src = ''return '' @ pastedCall
      then (updateSettingsGroupA (Some 4) None st, Throws ''y is not defined'')
      else (st, Throws ''Unexpected token''))"

definition importDialog :: "fretboard import_dialog" where
  "importDialog = \<lparr>pageState = initialFretboard, errorText = [], errorShown = False, overlayOpen = True\<rparr>"

section \<open>The control panel: synchronisation from the diagram\<close>

subsection \<open>Elements and references\<close>

text \<open>
  An element of the panel: its identity, its tag name, its \<open>value\<close>, \<open>checked\<close> and
  \<open>textContent\<close> properties.  The colour inputs with an opacity slider are containers that
  carry an \<open>updateColor\<close> method; for them \<open>elValue\<close> is the colour value they were last
  given to display.
\<close>

record element =
  elemId :: nat
  tagName :: string
  elValue :: string
  elChecked :: bool
  elText :: string
  hasUpdateColor :: bool

text \<open>An entry of \<open>inputRefs.fingeringInputs\<close>: the fret text and the finger input of a string.\<close>

record fingering_row =
  fretText :: "element option"
  fingerInput :: "element option"

text \<open>
  \<open>instance.inputRefs\<close>; \<open>None\<close> is a reference that does not exist.  \<open>refFretMarkers\<close> holds
  the references \<open>fretMarker_<fret>\<close> by fret number; the string colour, tuning and fingering
  references are keyed by string number.
\<close>

record input_refs =
  refDotTextMode :: "element option"
  refShowFretIndicators :: "element option"
  refCssVarsA :: "(string \<times> element) list option"
  refStringColorInputs :: "(nat \<times> element) list option"
  refCssVarsB :: "(string \<times> element) list option"
  refThemeSelector :: "element option"
  refInstrumentSelector :: "element option"
  refFretboardBindingDisplay :: "element option"
  refFretMarkers :: "(nat \<times> element) list"
  refCustomCSS :: "element option"
  refChordName :: "element option"
  refRootNote :: "element option"
  refStartFret :: "element option"
  refNumFrets :: "element option"
  refStringType :: "element option"
  refNumStrings :: "element option"
  refTuningInputs :: "(nat \<times> element) list option"
  refFingeringInputs :: "(nat \<times> fingering_row) list option"


subsection \<open>What a tick reads\<close>

text \<open>
  A property of a settings object that the tick tests with \<open>!== undefined\<close>: absent, \<open>null\<close>,
  or a value.
\<close>

datatype 'a js_field = Absent | IsNull | Has 'a

text \<open>
  The properties of the three settings groups that the tick reads from the result of
  \<open>getCurrentFretboardState\<close>.  For the maps \<open>None\<close> is a missing (or \<open>null\<close>) map.  A group
  that is missing has all its properties absent.
\<close>

record sync_settings =
  dotTextMode_A :: "string js_field"
  showFretIndicators_A :: "string js_field"
  cssVariables_A :: "(string \<times> string) list option"
  stringType_A :: "string js_field"
  numStrings_A :: "int js_field"
  tuning_A :: "(nat \<times> string) list option"
  cssVariables_B :: "(string \<times> string) list option"
  fretboardBindingDisplay_B :: "bool js_field"
  fretMarkers_B :: "(nat \<times> string) list option"
  customCSS_B :: "string js_field"
  name_C :: "string js_field"
  root_C :: "string js_field"
  startFret_C :: "int js_field"
  numFrets_C :: "int js_field"



subsection \<open>Writing one reference\<close>


text \<open>\<open>input === activeElement\<close>.\<close>

definition sameElement :: "element \<Rightarrow> element option \<Rightarrow> bool" where
  "sameElement input a =
     (case a of None \<Rightarrow> False | Some el \<Rightarrow> elemId el = elemId input)"








subsection \<open>Group A (lines 506--526)\<close>


subsection \<open>String colours (lines 528--546)\<close>



subsection \<open>Group B variables (lines 548--604)\<close>










subsection \<open>Theme, instrument and markers (lines 606--656)\<close>




subsection \<open>The steps before the number of strings (lines 506--694)\<close>


subsection \<open>Rebuilding the string rows and the string colours\<close>










subsection \<open>The number of strings (lines 695--715)\<close>

text \<open>
  \<open>parseInt(refs.numStrings.value) || 6\<close>, and the number \<open>groupA.numStrings || 6\<close> the panel
  is rebuilt for when the two differ (\<open>None\<close> when they do not, or when nothing is looked
  at).
\<close>

definition shownNumStrings :: "element \<Rightarrow> int" where
  "shownNumStrings input = (case parseInt (elValue input) of VNum k \<Rightarrow> if k = 0 then 6 else k | _ \<Rightarrow> 6)"

definition newNumStrings :: "element option \<Rightarrow> sync_settings \<Rightarrow> input_refs \<Rightarrow> int option" where
  "newNumStrings a st refs =
     (case refNumStrings refs of
        None \<Rightarrow> None
      | Some input \<Rightarrow>
          if sameElement input a then None
          else (case numStrings_A st of
                  Absent \<Rightarrow> None
                | IsNull \<Rightarrow> Some 6
                | Has n \<Rightarrow> if shownNumStrings input = n then None else Some (if n = 0 then 6 else n)))"




subsection \<open>Tuning (lines 717--725)\<close>


subsection \<open>Fingering (lines 727--841)\<close>





text \<open>Line 743.\<close>

definition hasValidFingering :: "fingering_entry list \<Rightarrow> bool" where
  "hasValidFingering fs = list_ex (\<lambda>f. 1 \<le> string f \<and> fret f \<noteq> VUndefined \<and> fret f \<noteq> VNull) fs"








subsection \<open>The tick\<close>





subsection \<open>Tracked fields\<close>




text \<open>What a field is made to show: a value, a checked state, or a text.\<close>

datatype shown = ShowValue string | ShowChecked bool | ShowText string










subsection \<open>An example panel\<close>





















section \<open>Facts about the library functions\<close>

lemma set_js_insert: "set (js_insert cmp x xs) = insert x (set xs)"
  by (induction xs) auto

lemma set_js_sort: "set (js_sort cmp xs) = set xs"
  unfolding js_sort_def by (induction xs) (simp_all add: set_js_insert)






subsection \<open>Reading back a printed integer\<close>

lemma of_char_digit_char: "d < 10 \<Longrightarrow> (of_char (digit_char d) :: nat) = 48 + d"
  by (simp add: digit_char_def)

lemma is_digit_digit_char: "d < 10 \<Longrightarrow> is_digit (digit_char d)"
  by (simp add: is_digit_def less_eq_char_def of_char_digit_char)

lemma digit_val_digit_char: "d < 10 \<Longrightarrow> digit_val (digit_char d) = d"
  by (simp add: digit_val_def of_char_digit_char)

lemma digit_char_neq: "d < 10 \<Longrightarrow> (of_char c :: nat) < 48 \<Longrightarrow> digit_char d \<noteq> c"
  using of_char_digit_char [of d] by auto

lemma digit_char_not_nbsp: "d < 10 \<Longrightarrow> digit_char d \<noteq> CHR 0xA0"
  using of_char_digit_char [of d] by auto

lemma digit_char_not_space: "d < 10 \<Longrightarrow> \<not> is_js_space (digit_char d)"
  using digit_char_neq [of d "CHR 0x09"] digit_char_neq [of d "CHR 0x0A"] digit_char_neq [of d "CHR 0x0B"]
    digit_char_neq [of d "CHR 0x0C"] digit_char_neq [of d "CHR 0x0D"] digit_char_neq [of d "CHR '' ''"]
    digit_char_not_nbsp [of d]
  by (auto simp: is_js_space_def)

lemma digits_of_digits: "\<forall>c\<in>set (digits_of n). is_digit c"
proof (induction n rule: digits_of.induct)
  case (1 n)
  show ?case
  proof (cases "n < 10")
    case True
    then show ?thesis by (subst digits_of.simps) (simp add: is_digit_digit_char)
  next
    case False
    then show ?thesis using 1 by (subst digits_of.simps) (simp add: is_digit_digit_char)
  qed
qed

lemma digits_of_nonempty: "digits_of n \<noteq> []"
  by (subst digits_of.simps) simp

lemma digits_val_append: "digits_val (ds @ [c]) = digits_val ds * 10 + digit_val c"
  by (simp add: digits_val_def)

lemma digits_val_digits_of: "digits_val (digits_of n) = n"
proof (induction n rule: digits_of.induct)
  case (1 n)
  show ?case
  proof (cases "n < 10")
    case True
    then show ?thesis by (subst digits_of.simps) (simp add: digits_val_def digit_val_digit_char)
  next
    case False
    then have "digits_val (digits_of (n div 10)) = n div 10" using 1 by simp
    then show ?thesis using False
      by (subst digits_of.simps) (simp add: digits_val_append digit_val_digit_char)
  qed
qed

lemma hd_digits_of: "\<exists>d<10. hd (digits_of n) = digit_char d"
proof (induction n rule: digits_of.induct)
  case (1 n)
  show ?case
  proof (cases "n < 10")
    case True
    then show ?thesis by (subst digits_of.simps) auto
  next
    case False
    then show ?thesis using 1 digits_of_nonempty [of "n div 10"]
      by (subst digits_of.simps) simp
  qed
qed

lemma digit_char_not_sign: "d < 10 \<Longrightarrow> digit_char d \<noteq> CHR ''-'' \<and> digit_char d \<noteq> CHR ''+''"
  using digit_char_neq [of d "CHR ''-''"] digit_char_neq [of d "CHR ''+''"] by auto

lemma takeWhile_all: "\<forall>c\<in>set xs. P c \<Longrightarrow> takeWhile P xs = xs"
  by (induction xs) auto

lemma takeWhile_digits_of: "takeWhile is_digit (digits_of n) = digits_of n"
  by (rule takeWhile_all) (rule digits_of_digits)

lemma parseInt_digits: "parseInt (digits_of n) = VNum (int n)"
proof -
  obtain d where d: "d < 10" "hd (digits_of n) = digit_char d" using hd_digits_of by blast
  obtain c cs where cs: "digits_of n = c # cs" using digits_of_nonempty by (cases "digits_of n") auto
  have c: "c = digit_char d" using d cs by simp
  have t: "trimStart (digits_of n) = digits_of n"
    using cs c digit_char_not_space [OF d(1)] by (simp add: trimStart_def)
  show ?thesis
    using t digits_of_nonempty [of n] digit_char_not_sign [OF d(1)] d(2)
    by (simp add: parseInt_def Let_def takeWhile_digits_of digits_val_digits_of)
qed

lemma parseInt_show_int: "parseInt (show_int n) = VNum n"
proof (cases "n < 0")
  case False
  then show ?thesis using parseInt_digits [of "nat n"] by (simp add: show_int_def)
next
  case True
  have ns: "\<not> is_js_space (CHR ''-'')" by (simp add: is_js_space_def)
  show ?thesis using True ns digits_of_nonempty [of "nat (- n)"]
    by (simp add: show_int_def parseInt_def Let_def trimStart_def takeWhile_digits_of digits_val_digits_of)
qed

lemma show_int_nonempty: "show_int n \<noteq> []"
  by (simp add: show_int_def digits_of_nonempty)


subsection \<open>Pieces of the diagram\<close>

lemma in_allPieces: "(f, i, p) \<in> set (allPieces rows) \<longleftrightarrow> pieceAt rows f i = Some p"
proof -
  have "(f, i, p) \<in> set (allPieces rows) \<longleftrightarrow>
        (\<exists>row. (f, row) \<in> set (enumerate 0 rows) \<and> (i, p) \<in> set (enumerate 0 row))"
    unfolding allPieces_def by (auto simp: image_iff)
  also have "\<dots> \<longleftrightarrow> pieceAt rows f i = Some p"
    by (auto simp: pieceAt_def in_set_enumerate_eq)
  finally show ?thesis .
qed

lemma pieceAt_updatePiece:
  "pieceAt (updatePiece f i g rows) f' i' =
     (if f' = f \<and> i' = i then map_option g (pieceAt rows f i) else pieceAt rows f' i')"
  by (auto simp: pieceAt_def updatePiece_def nth_list_update)

lemma map_length_updatePiece: "map length (updatePiece f i g rows) = map length rows"
  by (auto simp: updatePiece_def map_update list_update_same_conv)

lemma in_getFingering:
  "x \<in> set (getFingeringFromDotState s) \<longleftrightarrow>
   (\<exists>f i p. pieceAt (fretRows s) f i = Some p \<and> x \<in> set (derivePiece (f, i, p)))"
  by (auto simp: getFingeringFromDotState_def in_allPieces [symmetric])

lemma pieceAt_shape:
  "map length rows = map length rows' \<Longrightarrow> (pieceAt rows f i = None) = (pieceAt rows' f i = None)"
proof -
  assume a: "map length rows = map length rows'"
  then have l: "length rows = length rows'" using map_eq_imp_length_eq by blast
  have "f < length rows \<Longrightarrow> length (rows ! f) = length (rows' ! f)"
    using a l by (metis nth_map)
  then show ?thesis using l by (auto simp: pieceAt_def)
qed



subsection \<open>A diagram with nothing active\<close>

lemma noActive_iff:
  "noActiveMarkers s \<longleftrightarrow> (\<forall>f i p. pieceAt (fretRows s) f i = Some p \<longrightarrow> \<not> dotActive p \<and> \<not> unplayedActive p)"
  unfolding noActiveMarkers_def list_all_iff pieceAt_def
  by (auto simp: all_set_conv_all_nth) 

lemma noActive_pieces:
  "noActiveMarkers s \<Longrightarrow> (f, i, p) \<in> set (allPieces (fretRows s)) \<Longrightarrow> \<not> dotActive p \<and> \<not> unplayedActive p"
  by (simp add: noActive_iff in_allPieces)

lemma concat_map_Nil: "(\<And>x. x \<in> set xs \<Longrightarrow> f x = []) \<Longrightarrow> concat (map f xs) = []"
  by (induction xs) auto

lemma clean_dotTimers: "noActiveMarkers s \<Longrightarrow> dotTimers (fretRows s) = []"
  unfolding dotTimers_def by (rule concat_map_Nil) (auto dest: noActive_pieces)

lemma clean_unplayedTimers: "noActiveMarkers s \<Longrightarrow> unplayedTimers (fretRows s) = []"
  unfolding unplayedTimers_def by (rule concat_map_Nil) (auto dest: noActive_pieces)

lemma clean_markRemoving:
  assumes "noActiveMarkers s"
  shows "map (map markRemoving) (fretRows s) = fretRows s"
proof -
  have "\<And>row p. row \<in> set (fretRows s) \<Longrightarrow> p \<in> set row \<Longrightarrow> markRemoving p = p"
    using assms by (auto simp: noActiveMarkers_def list_all_iff markRemoving_def)
  then show ?thesis by (simp add: map_idI)
qed

lemma clean_clearChord: "clean s \<Longrightarrow> clearChord s = s"
  by (simp add: clean_def clearChord_def clean_dotTimers clean_unplayedTimers clean_markRemoving)

lemma clean_save: "noActiveMarkers s \<Longrightarrow> PERSISTENT_DOT_STATE (saveDotState s) = []"
proof -
  assume a: "noActiveMarkers s"
  have "concat (map savePiece (allPieces (fretRows s))) = []"
    by (rule concat_map_Nil) (auto simp: savePiece_def dest: noActive_pieces [OF a])
  then show ?thesis by (simp add: saveDotState_def)
qed

lemma noActive_freshPiece: "\<not> dotActive (freshPiece t) \<and> \<not> unplayedActive (freshPiece t)"
  by (simp add: freshPiece_def)

lemma in_set_tl: "x \<in> set (tl xs) \<Longrightarrow> x \<in> set xs"
  by (cases xs) auto

lemma clean_initializeDynamicStrings: "clean s \<Longrightarrow> clean (initializeDynamicStrings s)"
  by (auto simp: clean_def noActiveMarkers_def initializeDynamicStrings_def list_all_iff noActive_freshPiece
      dest: in_set_tl)

lemma clean_generateFretRows: "clean s \<Longrightarrow> clean (generateFretRows b s)"
  by (auto simp: clean_def noActiveMarkers_def generateFretRows_def list_all_iff noActive_freshPiece
      dest: in_set_takeD)

lemma clean_setChordConfiguration: "clean s \<Longrightarrow> clean (setChordConfiguration sf s)"
proof -
  assume c: "clean s"
  let ?s1 = "s\<lparr>START_FRET := sf\<rparr>"
  have c1: "clean ?s1" using c by (simp add: clean_def noActiveMarkers_def)
  have sv: "PERSISTENT_DOT_STATE (saveDotState ?s1) = []" using c1 by (simp add: clean_save clean_def)
  have c2: "clean (saveDotState ?s1)" using c1 by (simp add: clean_def noActiveMarkers_def saveDotState_def)
  have c3: "clean (generateFretRows False (saveDotState ?s1))" by (rule clean_generateFretRows [OF c2])
  have "restoreDotState ((generateFretRows False (saveDotState ?s1))\<lparr>PERSISTENT_DOT_STATE := []\<rparr>)
        = (generateFretRows False (saveDotState ?s1))\<lparr>PERSISTENT_DOT_STATE := []\<rparr>"
    by (simp add: restoreDotState_def)
  then show ?thesis using c1 c3 sv clean_generateFretRows [OF c1, of False]
    by (simp add: setChordConfiguration_def Let_def clean_def noActiveMarkers_def)
qed

lemma clean_displayChordLayout: "clean s \<Longrightarrow> clean (displayChordLayout cfg s)"
proof -
  assume c: "clean s"
  have upd: "\<And>t f g h. clean t \<Longrightarrow> clean (t\<lparr>numStringsVar := f\<rparr>) \<and> clean (t\<lparr>STRING_TYPE := g\<rparr>) \<and> clean (t\<lparr>TUNING := h\<rparr>)"
    by (simp add: clean_def noActiveMarkers_def)
  show ?thesis
    unfolding displayChordLayout_def Let_def
    using c by (auto split: option.splits intro!: clean_generateFretRows clean_initializeDynamicStrings simp: upd)
qed


subsection \<open>Applying entries to empty pieces\<close>

lemma in_deriveRows:
  "x \<in> set (concat (map derivePiece (allPieces rows))) \<longleftrightarrow>
   (\<exists>f i p. pieceAt rows f i = Some p \<and> x \<in> set (derivePiece (f, i, p)))"
  by (auto simp: in_allPieces [symmetric])

lemma entry_eq_iff:
  "(e :: fingering_entry) = \<lparr>string = a, fret = b, finger = c\<rparr> \<longleftrightarrow> string e = a \<and> fret e = b \<and> finger e = c"
  by (cases e) auto

lemma addressable_shape:
  "map length rows = map length rows' \<Longrightarrow> addressable rows e = addressable rows' e"
  unfolding addressable_def
  using pieceAt_shape [of rows rows'] by (auto split: jv.splits)

lemma applyEntry_unusable: "\<not> usableFret e \<Longrightarrow> applyEntry tm dm e rows = rows"
  by (auto simp: applyEntry_def usableFret_def)

lemma map_length_applyEntry: "map length (applyEntry tm dm e rows) = map length rows"
  by (auto simp: applyEntry_def map_length_updatePiece split: jv.splits)

lemma map_length_fold_applyEntry:
  "map length (foldl (\<lambda>rows e. applyEntry tm dm e rows) rows es) = map length rows"
  by (induction es arbitrary: rows) (simp_all add: map_length_applyEntry)

lemma cellOf_nonneg: "addressable rows e \<Longrightarrow> 0 \<le> fst (cellOf e) \<and> 0 \<le> snd (cellOf e)"
  by (auto simp: addressable_def cellOf_def split: jv.splits if_splits)

lemma applyEntry_addressable:
  assumes "usableFret e" "addressable rows e"
  shows "\<exists>g. applyEntry tm dm e rows = updatePiece (nat (fst (cellOf e))) (nat (snd (cellOf e))) g rows \<and>
             (\<forall>p. \<not> dotActive p \<and> \<not> unplayedActive p \<longrightarrow>
                  derivePiece (nat (fst (cellOf e)), nat (snd (cellOf e)), g p) = [normalizeEntry e])"
proof -
  obtain n where n: "fret e = VNum n" using assms(2) by (auto simp: addressable_def split: jv.splits)
  have s1: "1 \<le> string e" using assms(2) n by (simp add: addressable_def)
  show ?thesis
  proof (cases "n = - 1")
    case True
    let ?g = "\<lambda>p. p\<lparr>unplayedActive := True\<rparr>"
    have "applyEntry tm dm e rows = updatePiece 0 (nat (string e - 1)) ?g rows"
      using n True s1 by (simp add: applyEntry_def)
    moreover have "\<forall>p. \<not> dotActive p \<and> \<not> unplayedActive p \<longrightarrow>
        derivePiece (0, nat (string e - 1), ?g p) = [normalizeEntry e]"
      using n True s1 by (simp add: derivePiece_def normalizeEntry_def entry_eq_iff)
    moreover have "cellOf e = (0, string e - 1)" using n True by (simp add: cellOf_def)
    ultimately show ?thesis by (intro exI [of _ ?g]) simp
  next
    case False
    then have n0: "0 \<le> n" using assms(2) n by (simp add: addressable_def)
    obtain m where m: "finger e = VNum m"
      using assms(2) n False by (auto simp: addressable_def split: jv.splits)
    let ?g = "\<lambda>p. p\<lparr>dotActive := True,
                    dataFinger := (if finger e \<noteq> VUndefined \<and> finger e \<noteq> VNull
                                   then Some (jv_to_string (finger e)) else dataFinger p),
                    dotText :=
                      (if dm = ''finger'' \<and> finger e \<noteq> VUndefined
                       then (if finger e = VNull then [] else jv_to_string (finger e))
                       else if dm = ''note'' \<and> getNoteAtFret tm (string e) n \<noteq> None
                       then the (getNoteAtFret tm (string e) n)
                       else dotText p)\<rparr>"
    have "applyEntry tm dm e rows = updatePiece (nat n) (nat (string e - 1)) ?g rows"
      using n False n0 s1 by (simp add: applyEntry_def)
    moreover have "\<forall>p. \<not> dotActive p \<and> \<not> unplayedActive p \<longrightarrow>
        derivePiece (nat n, nat (string e - 1), ?g p) = [normalizeEntry e]"
      using n False n0 s1 m
      by (simp add: derivePiece_def normalizeEntry_def entry_eq_iff truthyStr_def
          parseInt_show_int show_int_nonempty)
    moreover have "cellOf e = (n, string e - 1)" using n False by (simp add: cellOf_def)
    ultimately show ?thesis by (intro exI [of _ ?g]) simp
  qed
qed


lemma derive_updatePiece:
  assumes "pieceAt rows f i = Some p" "derivePiece (f, i, p) = []" "derivePiece (f, i, g p) = [y]"
  shows "x \<in> set (concat (map derivePiece (allPieces (updatePiece f i g rows)))) \<longleftrightarrow>
         x = y \<or> x \<in> set (concat (map derivePiece (allPieces rows)))"
proof -
  have A: "x \<in> set (concat (map derivePiece (allPieces (updatePiece f i g rows)))) \<longleftrightarrow>
        (\<exists>f' i' q. pieceAt (updatePiece f i g rows) f' i' = Some q \<and> x \<in> set (derivePiece (f', i', q)))"
    by (rule in_deriveRows)
  have B: "x \<in> set (concat (map derivePiece (allPieces rows))) \<longleftrightarrow>
        (\<exists>f' i' q. pieceAt rows f' i' = Some q \<and> x \<in> set (derivePiece (f', i', q)))"
    by (rule in_deriveRows)
  show ?thesis unfolding A B pieceAt_updatePiece
  proof
    assume "\<exists>f' i' q. (if f' = f \<and> i' = i then map_option g (pieceAt rows f i) else pieceAt rows f' i') = Some q
              \<and> x \<in> set (derivePiece (f', i', q))"
    then obtain f' i' q where h:
      "(if f' = f \<and> i' = i then map_option g (pieceAt rows f i) else pieceAt rows f' i') = Some q"
      "x \<in> set (derivePiece (f', i', q))" by blast
    show "x = y \<or> (\<exists>f' i' q. pieceAt rows f' i' = Some q \<and> x \<in> set (derivePiece (f', i', q)))"
    proof (cases "f' = f \<and> i' = i")
      case True
      then have "q = g p" using h(1) assms(1) by simp
      then show ?thesis using h(2) True assms(3) by simp
    next
      case False
      then have "pieceAt rows f' i' = Some q" using h(1) by (simp split: if_splits)
      then show ?thesis using h(2) by blast
    qed
  next
    assume "x = y \<or> (\<exists>f' i' q. pieceAt rows f' i' = Some q \<and> x \<in> set (derivePiece (f', i', q)))"
    then show "\<exists>f' i' q. (if f' = f \<and> i' = i then map_option g (pieceAt rows f i) else pieceAt rows f' i') = Some q
              \<and> x \<in> set (derivePiece (f', i', q))"
    proof
      assume "x = y"
      then have "x \<in> set (derivePiece (f, i, g p))" using assms(3) by simp
      moreover have "(if f = f \<and> i = i then map_option g (pieceAt rows f i) else pieceAt rows f i) = Some (g p)"
        using assms(1) by simp
      ultimately show ?thesis by blast
    next
      assume "\<exists>f' i' q. pieceAt rows f' i' = Some q \<and> x \<in> set (derivePiece (f', i', q))"
      then obtain f' i' q where h: "pieceAt rows f' i' = Some q" "x \<in> set (derivePiece (f', i', q))" by blast
      have "\<not> (f' = f \<and> i' = i)" using h assms(1,2) by auto
      then have "(if f' = f \<and> i' = i then map_option g (pieceAt rows f i) else pieceAt rows f' i') = Some q"
        using h(1) by (simp only: if_False)
      then show ?thesis using h(2) by blast
    qed
  qed
qed

lemma fold_applyEntry_derive:
  assumes "\<forall>e\<in>set es. usableFret e \<longrightarrow> addressable rows e"
      and "distinct (map cellOf (filter usableFret es))"
      and "\<forall>e\<in>set es. usableFret e \<longrightarrow> emptyAt rows e"
  shows "set (concat (map derivePiece (allPieces (foldl (\<lambda>rows e. applyEntry tm dm e rows) rows es)))) =
         set (concat (map derivePiece (allPieces rows))) \<union> normalizeEntry ` set (filter usableFret es)"
  using assms
proof (induction es arbitrary: rows)
  case Nil
  then show ?case by simp
next
  case (Cons e es)
  show ?case
  proof (cases "usableFret e")
    case False
    then show ?thesis using Cons by (simp add: applyEntry_unusable)
  next
    case True
    let ?f = "nat (fst (cellOf e))" and ?i = "nat (snd (cellOf e))"
    have ad: "addressable rows e" using Cons.prems(1) True by simp
    obtain g where g: "applyEntry tm dm e rows = updatePiece ?f ?i g rows"
      "\<forall>p. \<not> dotActive p \<and> \<not> unplayedActive p \<longrightarrow> derivePiece (?f, ?i, g p) = [normalizeEntry e]"
      using applyEntry_addressable [OF True ad, of tm dm] by blast
    obtain p where p: "pieceAt rows ?f ?i = Some p"
      using ad by (cases "pieceAt rows ?f ?i")
        (auto simp: addressable_def cellOf_def split: jv.splits if_splits)
    have pe: "\<not> dotActive p \<and> \<not> unplayedActive p"
      using Cons.prems(3) True p by (simp add: emptyAt_def)
    let ?rows1 = "applyEntry tm dm e rows"
    have d0: "derivePiece (?f, ?i, p) = []" using pe by (simp add: derivePiece_def)
    have d1: "derivePiece (?f, ?i, g p) = [normalizeEntry e]" using g(2) pe by blast
    have step: "set (concat (map derivePiece (allPieces ?rows1))) =
                insert (normalizeEntry e) (set (concat (map derivePiece (allPieces rows))))"
    proof (rule set_eqI)
      fix x
      show "x \<in> set (concat (map derivePiece (allPieces ?rows1))) \<longleftrightarrow>
            x \<in> insert (normalizeEntry e) (set (concat (map derivePiece (allPieces rows))))"
        using derive_updatePiece [of rows ?f ?i p g "normalizeEntry e" x] p d0 d1
        by (simp only: g(1) insert_iff)
    qed
    have sh: "map length ?rows1 = map length rows" by (rule map_length_applyEntry)
    have a1: "\<forall>e'\<in>set es. usableFret e' \<longrightarrow> addressable ?rows1 e'"
      using Cons.prems(1) addressable_shape [OF sh] by simp
    have a2: "distinct (map cellOf (filter usableFret es))" using Cons.prems(2) True by simp
    have a3: "\<forall>e'\<in>set es. usableFret e' \<longrightarrow> emptyAt ?rows1 e'"
    proof (intro ballI impI)
      fix e' assume e': "e' \<in> set es" "usableFret e'"
      then have ne: "cellOf e' \<noteq> cellOf e" using Cons.prems(2) True by (auto simp: image_iff)
      have ad': "addressable rows e'" using Cons.prems(1) e' by simp
      have "\<not> (nat (fst (cellOf e')) = ?f \<and> nat (snd (cellOf e')) = ?i)"
        using ne cellOf_nonneg [OF ad] cellOf_nonneg [OF ad'] by (auto simp: prod_eq_iff)
      then have "pieceAt ?rows1 (nat (fst (cellOf e'))) (nat (snd (cellOf e'))) =
                 pieceAt rows (nat (fst (cellOf e'))) (nat (snd (cellOf e')))"
        unfolding g(1) pieceAt_updatePiece by (simp only: if_False)
      then show "emptyAt ?rows1 e'" using Cons.prems(3) e' by (simp add: emptyAt_def)
    qed
    have "set (concat (map derivePiece (allPieces (foldl (\<lambda>rows e. applyEntry tm dm e rows) ?rows1 es)))) =
          set (concat (map derivePiece (allPieces ?rows1))) \<union> normalizeEntry ` set (filter usableFret es)"
      by (rule Cons.IH [OF a1 a2 a3])
    then show ?thesis using step True by simp
  qed
qed

lemma clean_derive_Nil: "noActiveMarkers s \<Longrightarrow> concat (map derivePiece (allPieces (fretRows s))) = []"
  by (rule concat_map_Nil) (auto simp: derivePiece_def dest: noActive_pieces)



subsection \<open>Active markers and pending removals\<close>



lemma markerActive_updatePiece:
  "markerActive (updatePiece f i g rows) (f', i', k) =
     (if f' = f \<and> i' = i then (case pieceAt rows f i of None \<Rightarrow> False | Some p \<Rightarrow> kindActive k (g p))
      else markerActive rows (f', i', k))"
  by (auto simp: markerActive_def pieceAt_updatePiece split: option.splits)










lemma pendingTimers_clearStringDots:
  "1 \<le> n \<Longrightarrow> pendingTimers (clearStringDots n s) = pendingTimers s @ stringTimers (nat (n - 1)) (fretRows s)"
  by (simp add: clearStringDots_def Let_def)

lemma timerMarker_stringTimers:
  "m \<in> timerMarker ` set (stringTimers idx rows) \<longleftrightarrow> markerActive rows m \<and> markerString m = idx"
proof -
  obtain f i k where m: "m = (f, i, k)" by (cases m)
  have "(f, i, k) \<in> timerMarker ` set (stringTimers idx rows) \<longleftrightarrow>
        \<lparr>timerFret = f, timerIndex = i, timerKind = k\<rparr> \<in> set (stringTimers idx rows)"
  proof
    assume "(f, i, k) \<in> timerMarker ` set (stringTimers idx rows)"
    then obtain t where t: "t \<in> set (stringTimers idx rows)" "timerMarker t = (f, i, k)" by auto
    have "t = \<lparr>timerFret = f, timerIndex = i, timerKind = k\<rparr>"
      using t(2) by (cases t) (simp add: timerMarker_def)
    then show "\<lparr>timerFret = f, timerIndex = i, timerKind = k\<rparr> \<in> set (stringTimers idx rows)"
      using t(1) by simp
  next
    assume a: "\<lparr>timerFret = f, timerIndex = i, timerKind = k\<rparr> \<in> set (stringTimers idx rows)"
    have "timerMarker \<lparr>timerFret = f, timerIndex = i, timerKind = k\<rparr> = (f, i, k)"
      by (simp add: timerMarker_def)
    then show "(f, i, k) \<in> timerMarker ` set (stringTimers idx rows)"
      using a by (metis imageI)
  qed
  also have "\<dots> \<longleftrightarrow>
        i = idx \<and> (\<exists>row. (f, row) \<in> set (enumerate 0 rows) \<and> idx < length row \<and> kindActive k (row ! idx))"
    unfolding stringTimers_def
    by (cases k) (auto simp: kindActive_def split: if_splits)
  also have "\<dots> \<longleftrightarrow> markerActive rows (f, i, k) \<and> i = idx"
    by (auto simp: markerActive_def pieceAt_def in_set_enumerate_eq split: option.splits)
  finally show ?thesis by (simp add: m markerString_def)
qed






lemma live_quiet: "pendingTimers s = [] \<Longrightarrow> live s m = markerActive (fretRows s) m"
  by (simp add: live_def)

lemma markerActive_updatePiece_same:
  assumes "\<And>k q. kindActive k (g q) = kindActive k q"
  shows "markerActive (updatePiece f i g rows) m = markerActive rows m"
proof -
  obtain f' i' k' where m: "m = (f', i', k')" by (cases m)
  show ?thesis unfolding m markerActive_updatePiece
    by (auto simp: assms markerActive_def split: option.splits)
qed




lemma timers_clearStringDots:
  "m \<in> timerMarker ` set (pendingTimers (clearStringDots (int i + 1) s)) \<longleftrightarrow>
   m \<in> timerMarker ` set (pendingTimers s) \<or> (markerActive (fretRows s) m \<and> markerString m = i)"
proof -
  have n1: "(1::int) \<le> int i + 1" "nat (int i + 1 - 1) = i" by simp_all
  show ?thesis
    unfolding pendingTimers_clearStringDots [OF n1(1)] n1(2)
    by (auto simp: image_Un timerMarker_stringTimers)
qed


































section \<open>Fret-row heights decay geometrically\<close>

lemma fretRatio_pos: "0 < fretRatio" by (simp add: fretRatio_def)
lemma fretRatio_lt1: "fretRatio < 1"
proof -
  have "(2::real) powr (- 1 / 12) < 2 powr 0" by (rule powr_less_mono) simp_all
  then show ?thesis by (simp add: fretRatio_def)
qed

lemma tl_allFretRows: "shown 0 \<Longrightarrow> tl (allFretRows shown) = visible_frets shown"
proof -
  assume s: "shown 0"
  have u: "[0..<25] = 0 # [1..<25]" by (simp add: upt_rec)
  have "filter shown [1..<25] = filter (\<lambda>f. 0 < f \<and> shown f) [1..<25]"
    by (rule filter_cong) auto
  then show ?thesis using s unfolding allFretRows_def visible_frets_def u by simp
qed

lemma ratioSum_pos: "tl rows \<noteq> [] \<Longrightarrow> 0 < ratioSum rows"
  unfolding ratioSum_def
  by (cases "tl rows") (auto intro!: add_pos_nonneg sum_list_nonneg simp: fretRatio_pos less_imp_le)

lemma ratioSum_nonneg: "0 \<le> ratioSum rows"
  unfolding ratioSum_def by (auto intro!: sum_list_nonneg simp: fretRatio_pos less_imp_le)

lemma visible_frets_sorted: "sorted_wrt (<) (visible_frets shown)"
  unfolding visible_frets_def by (intro sorted_wrt_filter) (simp add: sorted_wrt_upt)

lemma heights_decreasing:
  assumes "0 < b" "sorted_wrt (<) fs"
  shows "sorted_wrt (\<lambda>p q. fst p < fst q \<and> snd q < snd p) (map (\<lambda>f. (f, b * fretRatio ^ f)) fs)"
proof -
  have "\<And>m n. m < n \<Longrightarrow> b * fretRatio ^ n < b * fretRatio ^ m"
    using assms(1) fretRatio_pos fretRatio_lt1 by (simp add: power_strict_decreasing)
  then show ?thesis using assms(2)
    by (simp add: sorted_wrt_map) (erule sorted_wrt_mono_rel [rotated], simp)
qed

lemma row_writes_all:
  assumes "0 < b"
  shows "row_writes b rows = map (\<lambda>f. (f, b * fretRatio ^ f)) (tl rows)"
proof -
  have "\<And>f. 0 < b * fretRatio ^ f" using assms fretRatio_pos by simp
  then show ?thesis unfolding row_writes_def by (simp add: filter_map comp_def)
qed

lemma row_writes_positive: "(f, h) \<in> set (row_writes b rows) \<Longrightarrow> 0 < h"
  unfolding row_writes_def by auto

text \<open>
  Claim C9 says that the heights are assigned for any available height above 0.  The
  function first checks what it read from the page: when \<open>--fret-0-height\<close> is \<open>0\<close> or does
  not parse (lines 1089--1097), or the wrapper has no positive height yet (lines
  1074--1081), it asks for a retry on the next frame and assigns nothing.  With a 600px
  wrapper, a 40px header and \<open>--fret-0-height\<close> read as \<open>0\<close> the available height is 560 and
  the ratio sum is not zero, yet the call is deferred.  So it is with a wrapper of height
  \<open>0\<close>, a header height read as \<open>-100\<close> and a 30px fret-0 row, where the available height
  is 70.
\<close>

theorem zero_fret0_height_defers:
  "0 < availableHeight zero_fret0_env \<and>
   ratioSum (allFretRows (\<lambda>f. f < 5)) \<noteq> 0 \<and>
   applyFretHeights zero_fret0_env (\<lambda>f. f < 5) = Deferred \<and>
   0 < availableHeight no_height_env \<and>
   applyFretHeights no_height_env (\<lambda>f. f < 5) = Deferred"
proof -
  have "tl (allFretRows (\<lambda>f. f < 5)) \<noteq> []"
    by (simp add: allFretRows_def upt_rec)
  then have "0 < ratioSum (allFretRows (\<lambda>f. f < 5))" by (rule ratioSum_pos)
  then show ?thesis
    by (simp add: availableHeight_def actualHeight_def or_zero_def zero_fret0_env_def no_height_env_def
          applyFretHeights_def Let_def)
qed


text \<open>
  Claim C9, amended.  The fret-0 row is created with the wrapper and is never hidden, so it
  is the first collected row.  Then: (1) when the wrapper height and \<open>--fret-0-height\<close> are
  positive numbers, the available height is positive and some fret above 0 is visible,
  every visible fret \<open>f > 0\<close> is given the height \<open>availableHeight / (\<Sum> r^g) * r^f\<close> with
  \<open>r = 2^(-1/12)\<close>, and the heights strictly decrease as the fret number grows; (2) when the
  wrapper height or \<open>--fret-0-height\<close> is not a positive number the call is deferred, and
  when the available height is not positive or the ratio sum is zero nothing is applied
  (the call is deferred or aborted); (3) every height that is ever written is positive.
\<close>

theorem applyFretHeights_geometric:
  assumes "shown 0"
  shows "(layout_ready env \<and> 0 < availableHeight env \<and> visible_frets shown \<noteq> [] \<longrightarrow>
            applyFretHeights env shown =
              Applied (map (\<lambda>f. (f, availableHeight env / (\<Sum>g\<leftarrow>visible_frets shown. fretRatio ^ g) * fretRatio ^ f))
                        (visible_frets shown)) \<and>
            sorted_wrt (\<lambda>p q. fst p < fst q \<and> snd q < snd p)
              (map (\<lambda>f. (f, availableHeight env / (\<Sum>g\<leftarrow>visible_frets shown. fretRatio ^ g) * fretRatio ^ f))
                        (visible_frets shown))) \<and>
         (\<not> layout_ready env \<longrightarrow> applyFretHeights env shown = Deferred) \<and>
         (availableHeight env \<le> 0 \<or> ratioSum (allFretRows shown) = 0 \<longrightarrow>
            applyFretHeights env shown = Deferred \<or> applyFretHeights env shown = Aborted) \<and>
         (\<forall>ws f h. applyFretHeights env shown = Applied ws \<longrightarrow> (f, h) \<in> set ws \<longrightarrow> 0 < h)"
proof (intro conjI impI allI)
  assume a: "layout_ready env \<and> 0 < availableHeight env \<and> visible_frets shown \<noteq> []"
  let ?rows = "allFretRows shown"
  have tl: "tl ?rows = visible_frets shown" using assms by (simp add: tl_allFretRows)
  have rs: "ratioSum ?rows = (\<Sum>g\<leftarrow>visible_frets shown. fretRatio ^ g)"
    by (simp add: ratioSum_def tl)
  have rpos: "0 < ratioSum ?rows" using a tl by (intro ratioSum_pos) simp
  obtain actual where act: "actualHeight env = Some actual" "0 < actual"
    using a by (cases "actualHeight env") (auto simp: layout_ready_def or_zero_def)
  have f0: "0 < or_zero (fret0HeightParsed env)" using a by (simp add: layout_ready_def)
  have av: "availableHeight env = actual - or_zero (headerHeightParsed env) - or_zero (fret0HeightParsed env)"
    using act by (simp add: availableHeight_def or_zero_def)
  have bpos: "0 < availableHeight env / ratioSum ?rows" using a rpos by simp
  show "applyFretHeights env shown =
      Applied (map (\<lambda>f. (f, availableHeight env / (\<Sum>g\<leftarrow>visible_frets shown. fretRatio ^ g) * fretRatio ^ f))
                (visible_frets shown))"
    using act f0 a rpos av row_writes_all [OF bpos] tl rs
    by (simp add: applyFretHeights_def Let_def)
  show "sorted_wrt (\<lambda>p q. fst p < fst q \<and> snd q < snd p)
      (map (\<lambda>f. (f, availableHeight env / (\<Sum>g\<leftarrow>visible_frets shown. fretRatio ^ g) * fretRatio ^ f))
                (visible_frets shown))"
    using heights_decreasing [OF bpos visible_frets_sorted, of shown] rs by simp
next
  assume "\<not> layout_ready env"
  then show "applyFretHeights env shown = Deferred"
    by (auto simp: applyFretHeights_def Let_def layout_ready_def or_zero_def split: option.splits)
next
  assume "availableHeight env \<le> 0 \<or> ratioSum (allFretRows shown) = 0"
  then show "applyFretHeights env shown = Deferred \<or> applyFretHeights env shown = Aborted"
    by (auto simp: applyFretHeights_def Let_def availableHeight_def or_zero_def split: option.splits)
next
  fix ws f h
  assume "applyFretHeights env shown = Applied ws" "(f, h) \<in> set ws"
  then show "0 < h"
    by (auto simp: applyFretHeights_def Let_def split: option.splits if_splits dest: row_writes_positive)
qed

lemma example_visible: "visible_frets (\<lambda>f. f < 5) = [1, 2, 3, 4]"
  by (simp add: visible_frets_def upt_rec)

theorem applyFretHeights_geometric_witness:
  "applyFretHeights example_env (\<lambda>f. f < 5) =
     Applied (map (\<lambda>f. (f, 530 / (\<Sum>g\<leftarrow>[1, 2, 3, 4]. fretRatio ^ g) * fretRatio ^ f)) [1, 2, 3, 4])"
proof -
  have r: "layout_ready example_env" "availableHeight example_env = 530"
    by (simp_all add: layout_ready_def availableHeight_def actualHeight_def or_zero_def example_env_def)
  show ?thesis
    using applyFretHeights_geometric [of "\<lambda>f. f < 5" example_env] r example_visible
    by simp
qed


section \<open>The exporter drops entries that are not playable dots\<close>






lemma set_validFingering: "set (validFingering fs) = {f \<in> set fs. exportable_entry f}"
  by (auto simp: validFingering_def set_js_sort)


lemma list_ex_validFingering: "list_ex exportable_entry (validFingering fs) = list_ex exportable_entry fs"
  by (auto simp: list_ex_iff set_validFingering)







section \<open>Comment stripping does not respect quoted strings\<close>

text \<open>
  Claim C8 says that the comment-stripping step removes every \<open>//\<close> segment that is not
  inside a quoted string, removes block comments, and leaves the contents of quoted strings
  intact.  The code does neither in general.  Block comments are removed by a pattern that
  does not track quotes, so a \<open>/* ... */\<close> inside a quoted value is cut out of the value (first
  equation: the value \<open>'/* x */ .a{}'\<close> becomes \<open>' .a{}'\<close>).  Only the first \<open>//\<close> of a line is
  examined, so when it lies inside a string a real comment later on the line stays (second
  equation: \<open>// note\<close> is not removed).
\<close>

theorem stripComments_alters_quoted_text:
  "stripComments (''{customCSS: '' @ [CHR 0x27] @ ''/* x */ .a{}'' @ [CHR 0x27] @ ''}'')
     = ''{customCSS: '' @ [CHR 0x27] @ '' .a{}'' @ [CHR 0x27] @ ''}'' \<and>
   stripComments (''{a: '' @ [CHR 0x27] @ ''x//y'' @ [CHR 0x27] @ ''} // note'')
     = ''{a: '' @ [CHR 0x27] @ ''x//y'' @ [CHR 0x27] @ ''} // note''"
  by code_simp

section \<open>A layout change loses the muted markers\<close>

text \<open>
  Claim C5 says that when \<open>updateSettingsGroupA\<close> changes \<open>numStrings\<close> or \<open>stringType\<close> the
  dot state, muted markers included, is captured before the regeneration and restored
  after it, so that nothing on a string that still exists is lost.  The code saves a muted
  marker of the fret-0 row with the fret number \<open>-1\<close>, and \<open>restoreDotState\<close> looks the row
  up by that number: there is no row \<open>-1\<close>, and the marker is not restored.  Below, the
  diagram shows a muted third string and a dot on the second string, nothing is pending;
  after the change from six to seven strings the dot is still there and the muted marker
  is gone.
\<close>

theorem layout_change_loses_muted_marker:
  "getFingeringFromDotState mutedThirdString =
     [\<lparr>string = 3, fret = VNum (- 1), finger = VNum 0\<rparr>, \<lparr>string = 2, fret = VNum 1, finger = VNum 1\<rparr>] \<and>
   pendingTimers mutedThirdString = [] \<and>
   getFingeringFromDotState (updateSettingsGroupA (Some 7) None mutedThirdString) =
     [\<lparr>string = 2, fret = VNum 1, finger = VNum 1\<rparr>]"
  by code_simp

section \<open>Applying a fingering and reading it back\<close>

text \<open>
  Claim C3 says that for every valid fingering applied with \<open>displayChord\<close> to an
  initialized diagram, \<open>getFingeringFromDotState\<close> returns the entries that were not
  skipped.  \<open>displayChord\<close> first calls \<open>clearChord\<close>, which is to clear the diagram but only
  marks the old markers and schedules their removal 200ms later (lines 1608--1621).  So on
  a diagram that already shows markers the old ones are still read right after the call
  (first inequality), and when the timers run they also erase the dots that the new chord
  has just activated on the same elements (second inequality).  The diagram below shows a
  muted third string and a dot on string 2, fret 1; the chord applied is that dot alone.
\<close>

theorem redisplay_loses_shared_dot:
  "set (getFingeringFromDotState
          (displayChord (simpleChord [\<lparr>string = 2, fret = VNum 1, finger = VNum 1\<rparr>]) mutedThirdString))
     \<noteq> set (filter usableFret [\<lparr>string = 2, fret = VNum 1, finger = VNum 1\<rparr>]) \<and>
   set (getFingeringFromDotState
          (settle (displayChord (simpleChord [\<lparr>string = 2, fret = VNum 1, finger = VNum 1\<rparr>]) mutedThirdString)))
     \<noteq> set (filter usableFret [\<lparr>string = 2, fret = VNum 1, finger = VNum 1\<rparr>])"
proof -
  have a: "getFingeringFromDotState
          (displayChord (simpleChord [\<lparr>string = 2, fret = VNum 1, finger = VNum 1\<rparr>]) mutedThirdString)
        = [\<lparr>string = 3, fret = VNum (- 1), finger = VNum 0\<rparr>, \<lparr>string = 2, fret = VNum 1, finger = VNum 1\<rparr>]"
    by code_simp
  have b: "getFingeringFromDotState
          (settle (displayChord (simpleChord [\<lparr>string = 2, fret = VNum 1, finger = VNum 1\<rparr>]) mutedThirdString))
        = []"
    by code_simp
  show ?thesis unfolding a b by (simp add: usableFret_def)
qed


text \<open>
  On a diagram on which no marker is active and no removal is pending the round trip does
  hold.  If every entry whose fret is not \<open>null\<close>, \<open>undefined\<close> or \<open>'none'\<close> names a piece of
  the resulting diagram (fret \<open>-1\<close>, or the number of a fret row together with a numeric
  finger; the string one of the row's columns), and no two such entries name the same
  piece, then \<open>getFingeringFromDotState\<close> returns exactly these entries, as a set, a muted
  entry being read back with finger \<open>0\<close>; and no removal is pending afterwards.
\<close>

lemma displayChord_then_derive:
  assumes "noActiveMarkers s" and "pendingTimers s = []"
      and "\<forall>e\<in>set (cfgFingering cfg). usableFret e \<longrightarrow> addressable (fretRows (displayChord cfg s)) e"
      and "distinct (map cellOf (filter usableFret (cfgFingering cfg)))"
  shows "set (getFingeringFromDotState (displayChord cfg s)) =
           normalizeEntry ` set (filter usableFret (cfgFingering cfg)) \<and>
         pendingTimers (displayChord cfg s) = []"
proof -
  have c: "clean s" using assms(1,2) by (simp add: clean_def)
  define s6 where "s6 = setChordConfiguration (case cfgStartFret cfg of None \<Rightarrow> 1 | Some f \<Rightarrow> f)
                          (displayChordLayout cfg s)"
  define dm where "dm = (case cfgDisplayMode cfg of None \<Rightarrow> DOT_TEXT_MODE s6 | Some m \<Rightarrow> m)"
  define rows7 where "rows7 = foldl (\<lambda>rows e. applyEntry (TUNING s6) dm e rows) (fretRows s6) (cfgFingering cfg)"
  have c6: "clean s6" unfolding s6_def
    by (intro clean_setChordConfiguration clean_displayChordLayout c)
  have rows: "fretRows (displayChord cfg s) = rows7"
    unfolding displayChord_def Let_def clean_clearChord [OF c] rows7_def dm_def s6_def
    by (simp add: saveDotState_def split: option.splits)
  have pend: "pendingTimers (displayChord cfg s) = pendingTimers s6"
    unfolding displayChord_def Let_def clean_clearChord [OF c] s6_def
    by (simp add: saveDotState_def split: option.splits)
  have sh: "map length rows7 = map length (fretRows s6)"
    unfolding rows7_def by (rule map_length_fold_applyEntry)
  have a1: "\<forall>e\<in>set (cfgFingering cfg). usableFret e \<longrightarrow> addressable (fretRows s6) e"
    using assms(3) addressable_shape [OF sh] rows by simp
  have a3: "\<forall>e\<in>set (cfgFingering cfg). usableFret e \<longrightarrow> emptyAt (fretRows s6) e"
    using c6 by (simp add: clean_def noActive_iff emptyAt_def)
  have e0: "concat (map derivePiece (allPieces (fretRows s6))) = []"
    using c6 by (intro clean_derive_Nil) (simp add: clean_def)
  have "set (concat (map derivePiece (allPieces rows7))) =
        set (concat (map derivePiece (allPieces (fretRows s6)))) \<union>
        normalizeEntry ` set (filter usableFret (cfgFingering cfg))"
    unfolding rows7_def by (rule fold_applyEntry_derive [OF a1 assms(4) a3])
  then have "set (concat (map derivePiece (allPieces rows7))) =
        normalizeEntry ` set (filter usableFret (cfgFingering cfg))"
    unfolding e0 by simp
  then have "set (getFingeringFromDotState (displayChord cfg s)) =
             normalizeEntry ` set (filter usableFret (cfgFingering cfg))"
    unfolding getFingeringFromDotState_def rows .
  then show ?thesis using pend c6 by (simp add: clean_def)
qed


text \<open>The initial diagram, with a muted third string and a dot on string 2.\<close>

lemma displayChord_then_derive_example:
  "set (getFingeringFromDotState mutedThirdString) =
     normalizeEntry ` set (filter usableFret
        [\<lparr>string = 3, fret = VNum (- 1), finger = VNum 0\<rparr>, \<lparr>string = 2, fret = VNum 1, finger = VNum 1\<rparr>]) \<and>
   pendingTimers mutedThirdString = []"
proof -
  let ?es = "[\<lparr>string = 3, fret = VNum (- 1), finger = VNum 0\<rparr>, \<lparr>string = 2, fret = VNum 1, finger = VNum 1\<rparr>]"
  have h1: "noActiveMarkers initialFretboard" by code_simp
  have h2: "pendingTimers initialFretboard = []" by code_simp
  have h3: "\<forall>e\<in>set (cfgFingering (simpleChord ?es)).
              usableFret e \<longrightarrow> addressable (fretRows (displayChord (simpleChord ?es) initialFretboard)) e"
    by code_simp
  have h4: "distinct (map cellOf (filter usableFret (cfgFingering (simpleChord ?es))))" by code_simp
  show ?thesis
    using displayChord_then_derive [OF h1 h2 h3 h4]
    by (simp add: mutedThirdString_def simpleChord_def)
qed


section \<open>One marker per string\<close>






section \<open>Decoding failures\<close>

lemma show_int_inj: "show_int n = show_int m \<Longrightarrow> n = m"
proof -
  assume "show_int n = show_int m"
  then have "parseInt (show_int n) = parseInt (show_int m)" by simp
  then show ?thesis by (simp add: parseInt_show_int)
qed

text \<open>The message determines the failure: different failures give different errors.\<close>

lemma failure_message_inj: "failure_message f = failure_message g \<Longrightarrow> f = g"
  by (cases f; cases g) (auto dest: show_int_inj)

text \<open>\<open>parseExportCode\<close> fails exactly when the \<open>try\<close> block throws, with the wrapped message.\<close>

lemma parseExportCode_failure:
  "parseExportCode ev code st = (st', Inl msg) \<longleftrightarrow>
   (\<exists>f. decodeObject ev code st = (st', Inl f) \<and> msg = ''Invalid code format: '' @ failure_message f)"
  by (cases "decodeObject ev code st") (auto simp: parseExportCode_def split: sum.splits)

subsection \<open>When each failure is raised\<close>

lemma indexOf_char_None: "c \<notin> set s \<Longrightarrow> indexOf [c] s = None"
  by (induction s) auto

text \<open>A text without an opening brace: no object found.\<close>

lemma no_brace_fails:
  assumes "CHR ''{'' \<notin> set (stripComments (trim code))"
  shows "decodeObject ev code st =
           (st, Inl (if indexOf ''Fretboard.init('' (stripComments (trim code)) = None
                     then NoObject else NoOpeningBrace))"
proof -
  let ?c = "stripComments (trim code)"
  have a: "indexOf ''{'' ?c = None" using assms by (rule indexOf_char_None)
  have b: "indexOfFrom ''{'' i ?c = None" for i
    unfolding indexOfFrom_def using assms indexOf_char_None [of "CHR ''{''" "drop i ?c"]
    by (auto dest: in_set_dropD)
  show ?thesis
    by (cases "indexOf ''Fretboard.init('' ?c") (simp_all add: decodeObject_def extractObject_def a b)
qed

text \<open>
  In a text without quotes the brace-matching loop ends with the brace count when the
  count never comes back to zero.
\<close>

lemma braceBalance_Cons:
  "braceBalance (c # cs) =
     (if c = CHR ''{'' then 1 else if c = CHR ''}'' then - 1 else 0) + braceBalance cs"
  by (simp add: braceBalance_def)

lemma matchBraces_unmatched:
  assumes "\<forall>c\<in>set cs. c \<noteq> CHR 0x22 \<and> c \<noteq> CHR 0x27"
      and "\<forall>k. 0 < k \<and> k \<le> length cs \<longrightarrow> b + braceBalance (take k cs) \<noteq> 0"
  shows "matchBraces b False sc pc ppc i cs = Inl (b + braceBalance cs)"
  using assms
proof (induction cs arbitrary: b pc ppc i)
  case Nil
  then show ?case by (simp add: braceBalance_def)
next
  case (Cons c cs)
  let ?d = "if c = CHR ''{'' then 1 else if c = CHR ''}'' then - 1 else (0::int)"
  have q: "c \<noteq> CHR 0x22" "c \<noteq> CHR 0x27" "\<forall>c\<in>set cs. c \<noteq> CHR 0x22 \<and> c \<noteq> CHR 0x27"
    using Cons.prems(1) by simp_all
  have one: "b + ?d \<noteq> 0"
    using Cons.prems(2) [rule_format, of 1] by (auto simp: braceBalance_def split: if_splits)
  have rest: "\<forall>k. 0 < k \<and> k \<le> length cs \<longrightarrow> (b + ?d) + braceBalance (take k cs) \<noteq> 0"
  proof (intro allI impI)
    fix k assume k: "0 < k \<and> k \<le> length cs"
    from Cons.prems(2) [rule_format, of "Suc k"] k
    show "(b + ?d) + braceBalance (take k cs) \<noteq> 0" by (simp add: braceBalance_Cons add.assoc)
  qed
  have step: "matchBraces b False sc pc ppc i (c # cs) = matchBraces (b + ?d) False sc (Some c) pc (Suc i) cs"
    using q(1,2) one by auto
  show ?case
    unfolding step Cons.IH [OF q(3) rest] by (simp add: braceBalance_Cons add.assoc)
qed

text \<open>An opening brace that is never matched: the error names the brace count.\<close>

lemma unmatched_braces_fail:
  assumes "indexOf ''Fretboard.init('' (stripComments (trim code)) = None"
      and "indexOf ''{'' (stripComments (trim code)) = Some i"
      and "\<forall>c\<in>set (drop i (stripComments (trim code))). c \<noteq> CHR 0x22 \<and> c \<noteq> CHR 0x27"
      and "\<forall>k. 0 < k \<and> k \<le> length (drop i (stripComments (trim code))) \<longrightarrow>
               braceBalance (take k (drop i (stripComments (trim code)))) \<noteq> 0"
  shows "decodeObject ev code st =
           (st, Inl (NoClosingBrace (braceBalance (drop i (stripComments (trim code))))))"
proof -
  have "matchBraces 0 False sc pc ppc i (drop i (stripComments (trim code))) =
          Inl (0 + braceBalance (drop i (stripComments (trim code))))" for sc pc ppc
    by (rule matchBraces_unmatched) (use assms(3,4) in simp_all)
  then show ?thesis using assms(1,2) by (simp add: decodeObject_def extractObject_def del: matchBraces.simps)
qed

text \<open>After the literal has been located, the outcome of the evaluation decides.\<close>

lemma located_outcomes:
  assumes "extractObject (stripComments (trim code)) = Inr objStr"
  shows "decodeObject ev code st =
           (case ev (''return '' @ objStr) st of
              (st', Throws msg) \<Rightarrow> (st', Inl (EvalFailure msg))
            | (st', Returns config inherits) \<Rightarrow>
                if \<not> truthy config \<or> \<not> typeofObject config then (st', Inl NotAnObject)
                else if \<not> hasOwnPropertyCallable config inherits then (st', Inl HasOwnPropertyNotAFunction)
                else (st', Inr (JObj [(''settingsGroupA'', ownOrNull config ''settingsGroupA''),
                                      (''settingsGroupB'', ownOrNull config ''settingsGroupB''),
                                      (''settingsGroupC'', ownOrNull config ''settingsGroupC'')])))"
  by (simp only: decodeObject_def assms sum.case)

text \<open>A failure to locate the literal leaves the state of the page as it was.\<close>

lemma not_located_keeps_state:
  assumes "extractObject (stripComments (trim code)) = Inl f"
  shows "parseExportCode ev code st = (st, Inl (''Invalid code format: '' @ failure_message f))"
  using assms by (simp add: parseExportCode_def decodeObject_def)

text \<open>
  The import handler shows the error of a failed decoding and does not call
  \<open>applyImportedSettings\<close>; the page is left in the state in which the evaluation left it.
\<close>

lemma importClick_failure:
  assumes "parseExportCode ev (trim code) (pageState ui) = (st', Inl msg)" and "trim code \<noteq> []"
  shows "importClick ev applySettings code ui =
           ui\<lparr>pageState := st', errorText := ''Error: '' @ msg @ '' (Check console for details)'',
              errorShown := True\<rparr>"
  using assms by (simp add: importClick_def Let_def)

text \<open>
  Claim C7 says that every parse failure is thrown without any settings group having been
  changed.  The text is evaluated with \<open>new Function\<close> (lines 3464--3468, under the comment
  that this evaluates the object safely), and nothing undoes what the evaluation did when
  it throws.  For the pasted text \<open>{a: (Fretboard.updateSettingsGroupA({numStrings: 4}), y)}\<close>
  the import fails with the error of an evaluation failure, and the diagram, which had six
  strings, has four.
\<close>

theorem failed_import_keeps_evaluation_effects:
  "groupA_numStrings (pageState importDialog) = Some 6 \<and>
   groupA_numStrings (pageState (importClick engineOnPastedCall (\<lambda>settings st. (st, None)) pastedCall importDialog))
     = Some 4 \<and>
   errorShown (importClick engineOnPastedCall (\<lambda>settings st. (st, None)) pastedCall importDialog) \<and>
   errorText (importClick engineOnPastedCall (\<lambda>settings st. (st, None)) pastedCall importDialog) =
     ''Error: Invalid code format: Error parsing object: y is not defined. Please check the code syntax. (Check console for details)''"
  by code_simp

section \<open>The periodic synchronisation of the panel\<close>















































section \<open>Settings Group C never holds the Group A keys\<close>

lemma set_fst_js_set: "fst ` set (js_set g k v) = insert k (fst ` set g)"
  by (induction g) (auto simp: rev_image_eqI split: if_splits)

lemma mergeGroupC_keys:
  "fst ` set g \<inter> groupA_only_keys = {} \<Longrightarrow> fst ` set (mergeGroupC g s) \<inter> groupA_only_keys = {}"
proof (induction s arbitrary: g)
  case Nil
  then show ?case by simp
next
  case (Cons p s)
  obtain key v where p: "p = (key, v)" by (cases p)
  show ?case
  proof (cases "key \<noteq> ''tuning'' \<and> key \<noteq> ''numStrings'' \<and> key \<noteq> ''stringType''")
    case True
    then have "fst ` set (js_set g key v) \<inter> groupA_only_keys = {}"
      using Cons.prems by (auto simp: set_fst_js_set groupA_only_keys_def)
    then show ?thesis using Cons.IH True p by simp
  next
    case False
    then show ?thesis using Cons p by auto
  qed
qed

lemma updateSettingsGroupC_keys:
  "fst ` set g \<inter> groupA_only_keys = {} \<Longrightarrow>
   fst ` set (updateSettingsGroupC g settings) \<inter> groupA_only_keys = {}"
  using mergeGroupC_keys [of g "object_entries settings"]
  by (simp add: updateSettingsGroupC_def)

lemma default_keys: "fst ` set defaultSettingsGroupC \<inter> groupA_only_keys = {}"
  by (simp add: defaultSettingsGroupC_def groupA_only_keys_def)

lemma foldl_update_keys:
  "fst ` set g \<inter> groupA_only_keys = {} \<Longrightarrow>
   fst ` set (foldl updateSettingsGroupC g calls) \<inter> groupA_only_keys = {}"
proof (induction calls arbitrary: g)
  case Nil
  then show ?case by simp
next
  case (Cons c calls)
  have "fst ` set (updateSettingsGroupC g c) \<inter> groupA_only_keys = {}"
    by (rule updateSettingsGroupC_keys [OF Cons.prems])
  from Cons.IH [OF this] show ?case by simp
qed

text \<open>
  Claim C10.  Starting from the defaults, after any sequence of calls to
  \<open>updateSettingsGroupC\<close> with arbitrary arguments, the stored Settings Group C has none of
  the keys \<open>tuning\<close>, \<open>numStrings\<close>, \<open>stringType\<close>.
\<close>

theorem groupC_never_has_groupA_keys:
  "\<not> js_has (foldl updateSettingsGroupC defaultSettingsGroupC calls) ''tuning'' \<and>
   \<not> js_has (foldl updateSettingsGroupC defaultSettingsGroupC calls) ''numStrings'' \<and>
   \<not> js_has (foldl updateSettingsGroupC defaultSettingsGroupC calls) ''stringType''"
  using foldl_update_keys [OF default_keys, of calls]
  by (auto simp: js_has_def groupA_only_keys_def)


section \<open>Export followed by import\<close>

text \<open>
  Claim C1 says that decoding the export of a snapshot with at least one valid fingering
  entry, all three groups included, gives back every field that was set.  The export
  writes the chord name and the root between double quotes as they are (lines 2830--2831),
  while the values of the style variables and the custom CSS have their quotes escaped
  (lines 2724, 2786, 2798--2802).  For the chord name \<open>Emaj 12"\<close> the text reads
  \<open>name: "Emaj 12"",\<close>: the brace matcher of \<open>parseExportCode\<close> takes the last quotation mark
  of that line, and later the one after the root, as the start of a string, never sees the
  closing braces, and the import fails with the error of line 3456 before anything is
  evaluated, whatever the engine does and whichever variables are included.
\<close>

theorem quoted_name_breaks_round_trip:
  "list_ex spec_valid_entry (state_fingering inchNameState) \<and>
   Option.bind (settingsGroupC inchNameState) name = Some (''Emaj 12'' @ [CHR 0x22]) \<and>
   parseExportCode ev (inchNameExport includeAllVariables) st =
     (st, Inl ''Invalid code format: Could not find matching closing brace. The code may be incomplete. Brace count: 2'')"
proof -
  have v: "list_ex spec_valid_entry (state_fingering inchNameState)"
    "Option.bind (settingsGroupC inchNameState) name = Some (''Emaj 12'' @ [CHR 0x22])"
    by code_simp+
  have e: "extractObject (stripComments (trim (inchNameExport True))) = Inl (NoClosingBrace 2)"
    "extractObject (stripComments (trim (inchNameExport False))) = Inl (NoClosingBrace 2)"
    by code_simp+
  have m: "failure_message (NoClosingBrace 2) =
             ''Could not find matching closing brace. The code may be incomplete. Brace count: 2''"
    by code_simp
  have "parseExportCode ev (inchNameExport b) st =
          (st, Inl (''Invalid code format: '' @ failure_message (NoClosingBrace 2)))" for b
    using e by (cases b) (simp_all add: parseExportCode_def decodeObject_def)
  then show ?thesis using v m by simp
qed

end
